theory Spec2Isabelle
  imports Main "HOL-Library.Word"
begin

section \<open>n2kd: the NMEA 2000 aggregation server (src/n2kd/main.c)\<close>

text \<open>
  The development embeds the parts of \<^verbatim>\<open>main.c\<close> that parse one input line into the
  message store (\<^verbatim>\<open>handleMessageByte\<close>), serialise the store (\<^verbatim>\<open>getFullStateJSON\<close>),
  write to the clients (\<^verbatim>\<open>writeAllClients\<close>) and read a client's request
  (\<^verbatim>\<open>handleClientRequest\<close>).

  Conventions of the embedding.
  \<^item> A region of memory read as a C string is a \<open>string\<close> (a list of bytes) with the
    terminating NUL implied after its last byte; a pointer into it is an offset.
  \<^item> \<^verbatim>\<open>int\<close> variables are \<open>int\<close>, with values of 32 bits; where the code narrows or
    reinterprets them (\<^verbatim>\<open>%u\<close> stored through an \<^verbatim>\<open>int *\<close>, the cast to \<^verbatim>\<open>uint8_t\<close>) or
    a subtraction can leave the range (the macro \<^verbatim>\<open>PrnToIdx\<close>), the conversion is
    written out.
  \<^item> \<^verbatim>\<open>logAbort\<close>, which ends the process, a read through a null pointer, and a read
    or a write behind the end of a static array (whose neighbours are other
    variables of the program) are values of the type \<open>fault\<close>: the model stops there.
  \<^item> The clock, the result of \<^verbatim>\<open>select\<close> and the bytes a \<^verbatim>\<open>read\<close> delivers are
    parameters of the functions that ask for them.
  \<^item> Heap allocation always succeeds. A heap block that the code fills by hand (the
    accumulator, the snapshot) is its size and the bytes written from its start. The
    source goes on after a write behind the end of such a block; so does the model:
    it keeps the bytes, and a field of the state (\<open>overrun\<close>, \<open>st_past\<close>) holds the
    largest number of bytes written behind the end so far. These two fields are
    not variables of the source.
\<close>

subsection \<open>C strings\<close>

definition NUL :: char where
  "NUL = CHR 0x00"

text \<open>The bytes of the C string that starts at the head of a memory region.\<close>

definition cstr :: "string \<Rightarrow> string" where
  "cstr mem = takeWhile (\<lambda>c. c \<noteq> NUL) mem"

definition strlen :: "string \<Rightarrow> nat" where
  "strlen mem = length (cstr mem)"

fun starts_with :: "string \<Rightarrow> string \<Rightarrow> bool" where
  "starts_with s [] = True"
| "starts_with [] (n # ns) = False"
| "starts_with (c # cs) (n # ns) = (c = n \<and> starts_with cs ns)"

text \<open>
  \<^verbatim>\<open>strstr(haystack, needle)\<close> on a NUL-free haystack: the offset of the first
  occurrence, \<open>None\<close> for the null pointer.
\<close>

fun find_sub :: "string \<Rightarrow> string \<Rightarrow> nat option" where
  "find_sub [] n = (if n = [] then Some 0 else None)"
| "find_sub (c # cs) n =
     (if starts_with (c # cs) n then Some 0 else map_option Suc (find_sub cs n))"

definition strstr :: "string \<Rightarrow> string \<Rightarrow> nat option" where
  "strstr mem needle = find_sub (cstr mem) needle"

text \<open>
  \<^verbatim>\<open>strchr(s, c)\<close>: the offset of the first \<open>c\<close> in the C string at the head of the
  region; the terminator counts as part of the string, so \<open>c = NUL\<close> finds it.
\<close>

fun strchr :: "string \<Rightarrow> char \<Rightarrow> nat option" where
  "strchr [] c = (if c = NUL then Some 0 else None)"
| "strchr (x # xs) c =
     (if x = c then Some 0 else if x = NUL then None else map_option Suc (strchr xs c))"

subsection \<open>Constants and tables\<close>

definition SENSOR_TIMEOUT :: int where "SENSOR_TIMEOUT = 120"
definition AIS_TIMEOUT :: int where "AIS_TIMEOUT = 3600"
definition SONICHUB_TIMEOUT :: int where "SONICHUB_TIMEOUT = 3600 * 24 * 31"
definition UPDATE_INTERVAL :: int where "UPDATE_INTERVAL = 500"

definition MIN_PGN :: int where "MIN_PGN = 59391"
definition MAX_PGN :: int where "MAX_PGN = 131000"
definition ACTISENSE_BEM :: int where "ACTISENSE_BEM = 0x400000"
definition ACTISENSE_RNG :: int where "ACTISENSE_RNG = 0x100"

definition PGN_SPACE :: int where
  "PGN_SPACE = ACTISENSE_RNG + MAX_PGN - MIN_PGN"

text \<open>
  The value of an \<^verbatim>\<open>int\<close> expression: the low 32 bits of the exact result, read as
  two's complement.
\<close>

definition int32 :: "int \<Rightarrow> int" where
  "int32 x = sint (word_of_int x :: 32 word)"

text \<open>The macro of line 124; its argument and its subtractions are \<^verbatim>\<open>int\<close>.\<close>

definition PrnToIdx :: "int \<Rightarrow> int" where
  "PrnToIdx prn =
     (if prn \<le> MAX_PGN then int32 (prn - MIN_PGN)
      else if prn \<le> ACTISENSE_BEM + ACTISENSE_RNG then int32 (prn - ACTISENSE_BEM)
      else - 1)"

text \<open>The first name has no leading quote in the source, the others have one.\<close>

definition secondaryKeyList :: "string list" where
  "secondaryKeyList =
     [ ''Instance\"''
     , ''\"Reference\"''
     , ''\"Message ID\"''
     , ''\"User ID\"''
     , ''\"Proprietary ID\"'' ]"

definition secondaryKeyTimeout :: "int list" where
  "secondaryKeyTimeout =
     [ SENSOR_TIMEOUT, SENSOR_TIMEOUT, AIS_TIMEOUT, AIS_TIMEOUT, SENSOR_TIMEOUT, SENSOR_TIMEOUT ]"

definition SKIP_CHARACTERS :: string where
  "SKIP_CHARACTERS = ''\": ''"


subsection \<open>The store and the globals of the parser\<close>

text \<open>
  \<open>m_src\<close> is a \<^verbatim>\<open>uint8_t\<close>, \<open>p_prn\<close> an \<^verbatim>\<open>unsigned int\<close>. \<open>p_maxSrc\<close> is the
  length of \<open>p_message\<close>. A null \<^verbatim>\<open>char *\<close> is \<open>None\<close>.
\<close>

record Message =
  m_src :: "8 word"
  m_key2 :: "string option"
  m_time :: int
  m_text :: "string option"

record Pgn =
  p_prn :: nat
  p_description :: "string option"
  p_message :: "Message list"

text \<open>
  \<open>readLine\<close> holds the bytes between \<^verbatim>\<open>readLine\<close> and \<^verbatim>\<open>readBegin\<close>;
  \<open>currentAlloc\<close> is the size of the accumulator's block and \<open>currentMessage\<close> holds
  its first \<^verbatim>\<open>currentLen\<close> bytes; \<open>overrun\<close> is the largest number of bytes that a
  \<^verbatim>\<open>strcpy\<close> has written behind the end of that block so far;
  \<open>pgnIdx\<close> is the array of \<^verbatim>\<open>Pgn *\<close>, of \<open>PGN_SPACE\<close> elements; \<open>pgnList\<close> holds, for
  each \<^verbatim>\<open>&pgnIdx[idx]\<close> of the source, the index \<open>idx\<close>, and \<^verbatim>\<open>maxPgnList\<close> is its
  length.
\<close>

record globals =
  readLine :: string
  currentAlloc :: nat
  currentMessage :: string
  overrun :: nat
  pgnIdx :: "nat \<Rightarrow> Pgn option"
  pgnList :: "nat list"

definition init_globals :: globals where
  "init_globals =
     \<lparr> readLine = [], currentAlloc = 0, currentMessage = [], overrun = 0,
       pgnIdx = (\<lambda>i. None), pgnList = [] \<rparr>"

datatype fault =
    Abort_prn_out_of_range
  | PgnIdx_out_of_bounds
  | Abort_too_many_pgns
  | Abort_inconsistent_fd
  | Null_pgn
  | Null_description
  | Null_text
  | ReadLine_overrun
  | Abort_stdin
  | Abort_stdout
  | Buffer_overrun
  | Overlapping_memcpy

subsection \<open>Scanning the header: \<^verbatim>\<open>sscanf(s, "%u\",\"dst\":\"%u\",\"pgn\":\"%u\"", ...)\<close>\<close>

definition isspace :: "char \<Rightarrow> bool" where
  "isspace c = (c \<in> set [CHR '' '', CHR 0x09, CHR 0x0A, CHR 0x0B, CHR 0x0C, CHR 0x0D])"

definition isdigit :: "char \<Rightarrow> bool" where
  "isdigit c = (c \<in> set ''0123456789'')"

definition digit_value :: "char \<Rightarrow> int" where
  "digit_value c = int (of_char c) - 48"

text \<open>
  \<^verbatim>\<open>%u\<close>: white space is skipped, a sign is accepted, decimal digits follow. The C
  library converts them as \<^verbatim>\<open>strtoul\<close> does, to an \<^verbatim>\<open>unsigned long\<close> of 64 bits: digits
  that stand for \<open>2 ^ 64\<close> or more give \<open>2 ^ 64 - 1\<close>, with or without a minus sign; a
  smaller value is negated after a minus sign. The low 32 bits of that number are
  stored through the \<^verbatim>\<open>int *\<close> and read as two's complement. \<open>None\<close> when no digit is
  there.
\<close>

definition scan_u :: "string \<Rightarrow> (int \<times> string) option" where
  "scan_u s =
     (let s1 = dropWhile isspace s;
          neg = (s1 \<noteq> [] \<and> hd s1 = CHR ''-'');
          s2 = (if s1 \<noteq> [] \<and> (hd s1 = CHR ''-'' \<or> hd s1 = CHR ''+'') then tl s1 else s1);
          ds = takeWhile isdigit s2;
          v = foldl (\<lambda>a c. 10 * a + digit_value c) 0 ds;
          ul = (if 2 ^ 64 \<le> v then 2 ^ 64 - 1 else if neg then - v else v)
      in if ds = [] then None
         else Some (int32 ul, dropWhile isdigit s2))"

definition match_lit :: "string \<Rightarrow> string \<Rightarrow> string option" where
  "match_lit lit s = (if starts_with s lit then Some (drop (length lit) s) else None)"

text \<open>
  The three targets are automatic variables without initialiser: a conversion that
  does not happen leaves the value the variable had, \<open>junk\<close>.
\<close>

definition sscanf_ids :: "string \<Rightarrow> int \<times> int \<times> int \<Rightarrow> int \<times> int \<times> int" where
  "sscanf_ids s junk =
     (case junk of (src0, dst0, prn0) \<Rightarrow>
        (case scan_u s of
           None \<Rightarrow> (src0, dst0, prn0)
         | Some (src, s1) \<Rightarrow>
             (case match_lit ''\",\"dst\":\"'' s1 of
                None \<Rightarrow> (src, dst0, prn0)
              | Some s2 \<Rightarrow>
                  (case scan_u s2 of
                     None \<Rightarrow> (src, dst0, prn0)
                   | Some (dst, s3) \<Rightarrow>
                       (case match_lit ''\",\"pgn\":\"'' s3 of
                          None \<Rightarrow> (src, dst, prn0)
                        | Some s4 \<Rightarrow>
                            (case scan_u s4 of
                               None \<Rightarrow> (src, dst, prn0)
                             | Some (prn, s5) \<Rightarrow> (src, dst, prn)))))))"

text \<open>
  Lines 606 to 615. \<^verbatim>\<open>sizeof("\"src\":")\<close> is 7: the six characters and the
  terminator, so the scan starts one byte after the colon. The parameter \<open>junk\<close> is
  the 32 bits that each of \<^verbatim>\<open>src\<close>, \<^verbatim>\<open>dst\<close> and \<^verbatim>\<open>prn\<close> holds when the function is
  entered.
\<close>

type_synonym stack = "32 word \<times> 32 word \<times> 32 word"

definition scan_ids :: "string \<Rightarrow> stack \<Rightarrow> int \<times> int \<times> int" where
  "scan_ids line junk =
     (case junk of
        (src0, dst0, prn0) \<Rightarrow>
          (case strstr line ''\"src\":'' of
             None \<Rightarrow> (sint src0, sint dst0, sint prn0)
           | Some p \<Rightarrow> sscanf_ids (cstr (drop (p + 7) line)) (sint src0, sint dst0, sint prn0)))"

subsection \<open>The secondary key (lines 626 to 655)\<close>

text \<open>\<^verbatim>\<open>while (strchr(SKIP_CHARACTERS, *s)) s++;\<close> The terminator is skipped as well.\<close>

definition skip_chars :: "string \<Rightarrow> string" where
  "skip_chars mem = dropWhile (\<lambda>c. strchr SKIP_CHARACTERS c \<noteq> None) mem"

text \<open>
  \<^verbatim>\<open>if (!e || e2 < e) e = e2;\<close> with the null pointer below every other pointer.
\<close>

definition ptr_min :: "nat option \<Rightarrow> nat option \<Rightarrow> nat option" where
  "ptr_min e e2 =
     (case e of
        None \<Rightarrow> e2
      | Some i \<Rightarrow> (case e2 of None \<Rightarrow> None | Some j \<Rightarrow> if j < i then Some j else Some i))"

definition key_end :: "string \<Rightarrow> nat" where
  "key_end s =
     (case ptr_min (strchr s (CHR '' '')) (strchr s (CHR 0x22)) of
        None \<Rightarrow> strlen s
      | Some n \<Rightarrow> n)"

text \<open>
  The loop over the table. It has no \<^verbatim>\<open>break\<close>: every name is tried, a later match
  replaces \<open>key2\<close>, and \<open>k\<close> is returned as the loop leaves it.
\<close>

function key_loop :: "string \<Rightarrow> nat \<Rightarrow> string option \<Rightarrow> nat \<times> string option" where
  "key_loop line k key2 =
     (if k < length secondaryKeyList then
        (case strstr line (secondaryKeyList ! k) of
           None \<Rightarrow> key_loop line (Suc k) key2
         | Some p \<Rightarrow>
             (let s = skip_chars (drop (p + length (secondaryKeyList ! k)) line)
              in key_loop line (Suc k) (Some (take (key_end s) s))))
      else (k, key2))"
  by pat_completeness auto
termination
  by (relation "measure (\<lambda>(line, k, key2). length secondaryKeyList - k)") auto

declare key_loop.simps [simp del]


subsection \<open>\<^verbatim>\<open>appendJSONMessage\<close> (lines 443 to 458)\<close>

text \<open>
  The block grows by \<^verbatim>\<open>len\<close> when \<^verbatim>\<open>currentAlloc < currentLen + len\<close>. Then \<^verbatim>\<open>strcpy\<close>
  writes \<^verbatim>\<open>len + 1\<close> bytes from offset \<^verbatim>\<open>currentLen\<close> on, the terminator being the last:
  the bytes at offsets from \<^verbatim>\<open>currentAlloc\<close> on are behind the end of the block.
\<close>

definition appendJSONMessage :: "string \<Rightarrow> globals \<Rightarrow> globals" where
  "appendJSONMessage message g =
     (let len = strlen message;
          currentLen = length (currentMessage g);
          alloc = (if currentAlloc g < currentLen + len then currentAlloc g + len
                   else currentAlloc g)
      in g\<lparr> currentAlloc := alloc,
             currentMessage := currentMessage g @ cstr message,
             overrun := max (overrun g) (currentLen + len + 1 - alloc) \<rparr>)"

subsection \<open>The description of a PGN (lines 682 to 709)\<close>

text \<open>
  The result is the entry and whether the function goes on: \<open>False\<close> is the
  \<^verbatim>\<open>return\<close> of line 698. \<^verbatim>\<open>sizeof("\"description\":")\<close> is 15.
\<close>

definition describe :: "string \<Rightarrow> int \<Rightarrow> Pgn \<Rightarrow> Pgn \<times> bool" where
  "describe line prn pgn =
     (if p_description pgn = None then
        (let pgn1 = pgn\<lparr>p_prn := nat (prn mod 2 ^ 32)\<rparr> in
         case strstr line ''\"description\":'' of
           None \<Rightarrow> (pgn1, True)
         | Some p \<Rightarrow>
             (let s = drop (p + 15) line in
              case ptr_min (strchr s (CHR '':'')) (strchr s (CHR 0x22)) of
                None \<Rightarrow> (pgn1, False)
              | Some n \<Rightarrow> (pgn1\<lparr>p_description := Some (take n s)\<rparr>, True)))
      else (pgn, True))"

subsection \<open>The slot of a message (lines 711 to 766)\<close>

text \<open>
  The test of the first loop: the sources are equal (the \<^verbatim>\<open>uint8_t\<close> is promoted to
  \<^verbatim>\<open>int\<close>) and the slot has no key, or it has the key of the new message.
\<close>

definition key_matches :: "Message \<Rightarrow> int \<Rightarrow> string option \<Rightarrow> bool" where
  "key_matches m src key2 =
     (uint (m_src m) = src \<and> (case m_key2 m of None \<Rightarrow> True | Some k2 \<Rightarrow> key2 = Some k2))"

text \<open>Both loops return \<open>i\<close> as the loop leaves it: the length of the list when no slot is found.\<close>

fun find_key :: "Message list \<Rightarrow> int \<Rightarrow> string option \<Rightarrow> nat \<Rightarrow> nat" where
  "find_key [] src key2 i = i"
| "find_key (m # ms) src key2 i =
     (if key_matches m src key2 then i else find_key ms src key2 (Suc i))"

fun find_expired :: "Message list \<Rightarrow> int \<Rightarrow> nat \<Rightarrow> nat" where
  "find_expired [] now i = i"
| "find_expired (m # ms) now i =
     (if m_time m < now then i else find_expired ms now (Suc i))"

text \<open>
  The slot the message goes to and the array once the slot is there. A reused slot
  keeps its text; a new slot has a null text. The time of a new slot is not set
  by the source before line 798, the model writes 0.
\<close>

definition choose_slot :: "int \<Rightarrow> int \<Rightarrow> string option \<Rightarrow> Message list \<Rightarrow> nat \<times> Message list" where
  "choose_slot now src key2 ms =
     (let i = find_key ms src key2 0 in
      if i < length ms then (i, ms)
      else
        (let j = find_expired ms now 0 in
         if j < length ms then (j, ms[j := (ms ! j)\<lparr>m_src := word_of_int src, m_key2 := key2\<rparr>])
         else (length ms,
               ms @ [\<lparr>m_src = word_of_int src, m_key2 = key2, m_time = 0, m_text = None\<rparr>])))"

text \<open>Lines 768 to 798: the text is copied and the expiry is set.\<close>

definition store_message ::
  "int \<Rightarrow> int \<Rightarrow> string option \<Rightarrow> string \<Rightarrow> int \<Rightarrow> Message list \<Rightarrow> Message list" where
  "store_message now src key2 line valid ms =
     (case choose_slot now src key2 ms of
        (i, ms1) \<Rightarrow> ms1[i := (ms1 ! i)\<lparr>m_text := Some (cstr line), m_time := now + valid\<rparr>])"

definition validity :: "int \<Rightarrow> nat \<Rightarrow> int" where
  "validity prn k =
     (if prn = 126996 then AIS_TIMEOUT
      else if prn = 130816 then SONICHUB_TIMEOUT
      else secondaryKeyTimeout ! k)"

subsection \<open>\<^verbatim>\<open>handleMessageByte\<close> (lines 564 to 799)\<close>

text \<open>Lines 665 to 680: the entry of the PGN, allocated and listed when it is new.\<close>

definition lookup_pgn :: "nat \<Rightarrow> globals \<Rightarrow> fault + Pgn \<times> globals" where
  "lookup_pgn idx g =
     (case pgnIdx g idx of
        Some pgn \<Rightarrow> Inr (pgn, g)
      | None \<Rightarrow>
          if length (pgnList g) = 512 then Inl Abort_too_many_pgns
          else Inr (\<lparr>p_prn = 0, p_description = None, p_message = []\<rparr>,
                    g\<lparr>pgnList := pgnList g @ [idx]\<rparr>))"

text \<open>Lines 665 to 798, for a line that passed the checks.\<close>

definition store_line ::
  "int \<Rightarrow> string \<Rightarrow> int \<Rightarrow> int \<Rightarrow> nat \<Rightarrow> string option \<Rightarrow> nat \<Rightarrow> globals \<Rightarrow> fault + globals" where
  "store_line now line src prn k key2 idx g =
     (case lookup_pgn idx g of
        Inl f \<Rightarrow> Inl f
      | Inr (pgn, g1) \<Rightarrow>
          (case describe line prn pgn of
             (pgn1, False) \<Rightarrow> Inr (g1\<lparr>pgnIdx := (pgnIdx g1)(idx \<mapsto> pgn1)\<rparr>)
           | (pgn1, True) \<Rightarrow>
               Inr (g1\<lparr>pgnIdx := (pgnIdx g1)(idx \<mapsto>
                      pgn1\<lparr>p_message :=
                        store_message now src key2 line (validity prn k) (p_message pgn1)\<rparr>)\<rparr>)))"

text \<open>
  Lines 581 to 798: the line is complete. \<open>line\<close> is the content of the buffer,
  \<open>now\<close> the value of \<^verbatim>\<open>time(0)\<close>. The first eleven bytes and the last two are
  compared as memory; a line shorter than eleven bytes has its terminator among the
  eleven and fails the comparison. Line 665 reads element \<open>idx\<close> of \<open>pgnIdx\<close>: an
  index of \<open>PGN_SPACE\<close> or more is behind the array, and the model stops there.
\<close>

definition handleLine :: "int \<Rightarrow> stack \<Rightarrow> string \<Rightarrow> globals \<Rightarrow> fault + globals" where
  "handleLine now junk line g0 =
     (let g = g0\<lparr>readLine := []\<rparr> in
      if strstr line ''\"fields\":'' = None then Inr g
      else if take 11 line \<noteq> ''{\"timestamp'' then Inr g
      else if drop (length line - 2) line \<noteq> ''}}'' then Inr g
      else
        (case scan_ids line junk of
           (src, dst, prn) \<Rightarrow>
             if prn = 0 \<or> src = 0 then Inr g
             else if prn > MAX_PGN then Inr g
             else
               (case key_loop line 0 None of
                  (k, key2) \<Rightarrow>
                    (let g1 = appendJSONMessage line g;
                         idx = PrnToIdx prn
                     in if idx < 0 then Inl Abort_prn_out_of_range
                        else if PGN_SPACE \<le> idx then Inl PgnIdx_out_of_bounds
                        else store_line now line src prn k key2 (nat idx) g1))))"

text \<open>
  Lines 576 to 580. When 4096 bytes are in the buffer, line 581 writes the terminator
  behind the array: the model stops there.
\<close>

definition handleMessageByte :: "int \<Rightarrow> stack \<Rightarrow> char \<Rightarrow> globals \<Rightarrow> fault + globals" where
  "handleMessageByte now junk c g =
     (if c \<noteq> CHR 0x0A \<and> length (readLine g) < 4096 then Inr (g\<lparr>readLine := readLine g @ [c]\<rparr>)
      else if length (readLine g) = 4096 then Inl ReadLine_overrun
      else handleLine now junk (readLine g) g)"

text \<open>A run of calls, each with the clock reading and the stack content it meets.\<close>

fun feed :: "(int \<times> stack \<times> char) list \<Rightarrow> globals \<Rightarrow> fault + globals" where
  "feed [] g = Inr g"
| "feed ((now, junk, c) # bs) g =
     (case handleMessageByte now junk c g of Inl f \<Rightarrow> Inl f | Inr g1 \<Rightarrow> feed bs g1)"


subsection \<open>\<^verbatim>\<open>getFullStateJSON\<close> (lines 295 to 349)\<close>

text \<open>\<^verbatim>\<open>%u\<close> in a print call.\<close>

fun decimal :: "nat \<Rightarrow> string" where
  "decimal n =
     (if n < 10 then [''0123456789'' ! n]
      else decimal (n div 10) @ [''0123456789'' ! (n mod 10)])"

declare decimal.simps [simp del]

definition newline :: char where
  "newline = CHR 0x0A"

definition INITIAL_ALLOC :: nat where "INITIAL_ALLOC = 8192"
definition NEXT_ALLOC :: nat where "NEXT_ALLOC = 4096"

text \<open>
  The variables of the function: \<^verbatim>\<open>alloc\<close>, the size of the block \<^verbatim>\<open>state\<close>; \<^verbatim>\<open>remain\<close>;
  the bytes of the block before the terminator, \<^verbatim>\<open>l\<close> being their number (every print
  call starts at \<^verbatim>\<open>state + l\<close>, and \<^verbatim>\<open>INC_L_REMAIN\<close> moves \<^verbatim>\<open>l\<close> to the terminator that the
  call wrote). \<open>st_past\<close> is the largest number of bytes written behind the end of
  the block so far.
\<close>

record printer =
  st_alloc :: nat
  st_remain :: nat
  st_text :: string
  st_past :: nat

text \<open>A difference of two \<^verbatim>\<open>size_t\<close>, of 64 bits.\<close>

definition size_t :: "int \<Rightarrow> nat" where
  "size_t x = nat (x mod 2 ^ 64)"

text \<open>
  The macro of line 284: the block grows once, by \<open>NEXT_ALLOC\<close>, whatever \<open>x\<close> is.
\<close>

definition MAKE_SPACE :: "nat \<Rightarrow> printer \<Rightarrow> printer" where
  "MAKE_SPACE x st =
     (if st_remain st < x
      then st\<lparr>st_alloc := st_alloc st + NEXT_ALLOC, st_remain := st_remain st + NEXT_ALLOC\<rparr>
      else st)"

text \<open>The macro of line 292, once \<^verbatim>\<open>l\<close> has moved: \<^verbatim>\<open>remain = alloc - l\<close>.\<close>

definition INC_L_REMAIN :: "printer \<Rightarrow> printer" where
  "INC_L_REMAIN st = st\<lparr>st_remain := size_t (int (st_alloc st) - int (length (st_text st)))\<rparr>"

text \<open>
  \<^verbatim>\<open>snprintf(state + l, remain, ...)\<close> where \<open>out\<close> is the text that the format and its
  arguments give: at most \<^verbatim>\<open>remain - 1\<close> of its bytes are written, and the terminator;
  nothing is written when \<^verbatim>\<open>remain\<close> is 0.
\<close>

definition snprintf_state :: "string \<Rightarrow> printer \<Rightarrow> printer" where
  "snprintf_state out st =
     (if st_remain st = 0 then st
      else st\<lparr> st_text := st_text st @ take (st_remain st - 1) out,
               st_past := max (st_past st)
                 (length (st_text st) + length (take (st_remain st - 1) out) + 1 - st_alloc st) \<rparr>)"

text \<open>\<^verbatim>\<open>strcpy(state + l, s)\<close>: all of \<open>s\<close> and the terminator, whatever \<^verbatim>\<open>remain\<close> is.\<close>

definition strcpy_state :: "string \<Rightarrow> printer \<Rightarrow> printer" where
  "strcpy_state s st =
     st\<lparr> st_text := st_text st @ s,
          st_past := max (st_past st) (length (st_text st) + length s + 1 - st_alloc st) \<rparr>"

text \<open>The texts of the two formats; \<^verbatim>\<open>%s\<close> prints a C string.\<close>

definition format_pgn :: "char \<Rightarrow> nat \<Rightarrow> string \<Rightarrow> string" where
  "format_pgn separator prn description =
     [separator] @ ''\"'' @ decimal prn @ ''\":'' @ [newline]
       @ ''  {\"description\":\"'' @ cstr description @ ''\"'' @ [newline]"

definition format_message :: "Message \<Rightarrow> string \<Rightarrow> string" where
  "format_message m text =
     ''  ,\"'' @ decimal (unat (m_src m))
       @ (case m_key2 m of None \<Rightarrow> [] | Some k2 \<Rightarrow> ''_'')
       @ (case m_key2 m of None \<Rightarrow> [] | Some k2 \<Rightarrow> cstr k2)
       @ ''\":'' @ cstr text @ [newline]"

text \<open>
  The inner loop over the slots of one PGN. \<^verbatim>\<open>strlen(m->m_text)\<close> reads through the
  pointer of every slot that is printed.
\<close>

fun print_messages :: "int \<Rightarrow> Message list \<Rightarrow> printer \<Rightarrow> fault + printer" where
  "print_messages now [] st = Inr st"
| "print_messages now (m # ms) st =
     (if m_time m \<ge> now then
        (case m_text m of
           None \<Rightarrow> Inl Null_text
         | Some text \<Rightarrow>
             print_messages now ms
               (INC_L_REMAIN (snprintf_state (format_message m text)
                  (MAKE_SPACE (strlen text + 32) st))))
      else print_messages now ms st)"

text \<open>
  The outer loop over \<^verbatim>\<open>pgnList\<close>, with the separator. \<^verbatim>\<open>strlen(pgn->p_description)\<close>
  reads through the pointer of every listed entry. No space is made for the line
  that closes the object of a PGN.
\<close>

fun print_pgns :: "int \<Rightarrow> (nat \<Rightarrow> Pgn option) \<Rightarrow> nat list \<Rightarrow> char \<Rightarrow> printer \<Rightarrow> fault + char \<times> printer" where
  "print_pgns now tab [] separator st = Inr (separator, st)"
| "print_pgns now tab (idx # rest) separator st =
     (case tab idx of
        None \<Rightarrow> Inl Null_pgn
      | Some pgn \<Rightarrow>
          (case p_description pgn of
             None \<Rightarrow> Inl Null_description
           | Some description \<Rightarrow>
               (case print_messages now (p_message pgn)
                       (INC_L_REMAIN (snprintf_state (format_pgn separator (p_prn pgn) description)
                          (MAKE_SPACE (100 + strlen description) st))) of
                  Inl f \<Rightarrow> Inl f
                | Inr st1 \<Rightarrow>
                    print_pgns now tab rest (CHR '','')
                      (INC_L_REMAIN (strcpy_state (''  }'' @ [newline]) st1)))))"

text \<open>
  The function: the block of \<open>INITIAL_ALLOC\<close> bytes, the two loops, and the last
  \<^verbatim>\<open>strcpy\<close>. The result is what the caller gets, the block with its text.
\<close>

definition getFullStateJSON :: "int \<Rightarrow> globals \<Rightarrow> fault + printer" where
  "getFullStateJSON now g =
     (case print_pgns now (pgnIdx g) (pgnList g) (CHR ''{'')
             \<lparr> st_alloc = INITIAL_ALLOC, st_remain = INITIAL_ALLOC, st_text = [], st_past = 0 \<rparr> of
        Inl f \<Rightarrow> Inl f
      | Inr (separator, st) \<Rightarrow>
          Inr (if separator = CHR '','' then strcpy_state (''}'' @ [newline]) st
               else strcpy_state [newline] st))"


subsection \<open>The stream table\<close>

datatype StreamType =
    SOCKET_TYPE_ANY
  | CLIENT_JSON
  | CLIENT_JSON_STREAM
  | CLIENT_NMEA0183_STREAM
  | SERVER_JSON
  | SERVER_NMEA0183
  | DATA_INPUT_STREAM
  | DATA_OUTPUT_SINK
  | DATA_OUTPUT_COPY
  | DATA_OUTPUT_STREAM

text \<open>
  \<open>buffer\<close> is the array of 4096 bytes. The field \<^verbatim>\<open>readHandler\<close> is left out: the
  functions embedded here do not read it.
\<close>

record StreamInfo =
  fd :: int
  type :: StreamType
  timeout :: int
  buffer :: string
  len :: nat

text \<open>
  The table and the globals around it; \<open>glob\<close> holds the globals of the parser and
  the store. \<^verbatim>\<open>socketIdxMin\<close> is 0 from \<^verbatim>\<open>main\<close> on.
\<close>

record server =
  stream :: "nat \<Rightarrow> StreamInfo"
  socketIdxMin :: nat
  socketIdxMax :: int
  socketFdMax :: int
  activeSet :: "int set"
  readSet :: "int set"
  writeSet :: "int set"
  glob :: globals


text \<open>
  What \<^verbatim>\<open>writeAllClients\<close> hands to \<^verbatim>\<open>send\<close>: the snapshot (line 530) or the accumulator
  (line 546), each with the slot, the descriptor and the bytes.
\<close>

datatype event =
    Sent_state nat int string
  | Sent_message nat int string

fun slot_of :: "event \<Rightarrow> nat" where
  "slot_of (Sent_state i f s) = i"
| "slot_of (Sent_message i f s) = i"

fun is_state :: "event \<Rightarrow> bool" where
  "is_state (Sent_state i f s) = True"
| "is_state (Sent_message i f s) = False"

subsection \<open>\<^verbatim>\<open>closeStream\<close> (lines 260 to 280)\<close>

definition closeStream :: "nat \<Rightarrow> server \<Rightarrow> server" where
  "closeStream i sv =
     (let f = fd (stream sv i);
          sv1 = sv\<lparr> activeSet := activeSet sv - {f}, readSet := readSet sv - {f},
                    writeSet := writeSet sv - {f},
                    stream := (stream sv)(i := (stream sv i)\<lparr>fd := - 1\<rparr>) \<rparr>
      in if int i = socketIdxMax sv1
         then sv1\<lparr> socketIdxMax := socketIdxMax sv1 - 1,
                   socketFdMax := foldl (\<lambda>m j. max m (fd (stream sv1 j))) (- 1) (rev [0..<Suc i]) \<rparr>
         else sv1)"

lemma closeStream_socketIdxMax: "socketIdxMax (closeStream i sv) \<le> socketIdxMax sv"
  by (simp add: closeStream_def Let_def)

subsection \<open>\<^verbatim>\<open>writeAllClients\<close> (lines 482 to 562)\<close>

text \<open>
  What one call meets: the value \<^verbatim>\<open>select\<close> returns and the descriptors it leaves in
  \<^verbatim>\<open>ws\<close>, the reading of \<^verbatim>\<open>epoch()\<close> when it is called while slot \<open>i\<close> is handled, and
  the reading of \<^verbatim>\<open>time(0)\<close> in \<^verbatim>\<open>getFullStateJSON\<close>.
\<close>

record write_env =
  select_r :: int
  select_ws :: "int set"
  epoch :: "nat \<Rightarrow> int"
  time_now :: int

text \<open>The variables of the loop: \<^verbatim>\<open>r\<close>, \<^verbatim>\<open>now\<close>, \<^verbatim>\<open>state\<close>, the table, and what was sent.\<close>

record wloop =
  w_r :: int
  w_now :: int
  w_state :: "printer option"
  w_sv :: server
  w_out :: "event list"

text \<open>Lines 544 to 547, the arm of the stream clients and of the standard output.\<close>

definition send_message :: "nat \<Rightarrow> wloop \<Rightarrow> wloop" where
  "send_message i w =
     (if currentMessage (glob (w_sv w)) \<noteq> []
      then w\<lparr>w_out := w_out w @ [Sent_message i (fd (stream (w_sv w) i))
                                     (currentMessage (glob (w_sv w)))]\<rparr>
      else w)"

text \<open>
  Lines 524 to 539, the arm of \<open>CLIENT_JSON\<close>. The snapshot is computed when \<^verbatim>\<open>state\<close> is
  null; \<^verbatim>\<open>send\<close> is given \<^verbatim>\<open>strlen(state)\<close> bytes and its result is dropped. The test
  of line 531 is the source's.
\<close>

definition send_state :: "write_env \<Rightarrow> nat \<Rightarrow> wloop \<Rightarrow> fault + wloop" where
  "send_state E i w =
     (let sv = w_sv w; s = stream sv i in
      if timeout s \<noteq> 0 \<and> timeout s < w_now w then
        (case (case w_state w of
                 None \<Rightarrow> getFullStateJSON (time_now E) (glob sv)
               | Some st \<Rightarrow> Inr st) of
           Inl f \<Rightarrow> Inl f
         | Inr st \<Rightarrow>
             (let w1 = w\<lparr>w_state := Some st, w_out := w_out w @ [Sent_state i (fd s) (cstr (st_text st))]\<rparr> in
              if type s = CLIENT_JSON_STREAM
              then Inr (w1\<lparr>w_sv := sv\<lparr>stream := (stream sv)
                             (i := s\<lparr>timeout := epoch E i + UPDATE_INTERVAL\<rparr>)\<rparr>\<rparr>)
              else Inr (w1\<lparr>w_sv := closeStream i sv\<rparr>)))
      else Inr w)"

text \<open>Lines 499 to 553, the body of the loop for slot \<open>i\<close>.\<close>

definition write_slot :: "write_env \<Rightarrow> nat \<Rightarrow> wloop \<Rightarrow> fault + wloop" where
  "write_slot E i w =
     (let sv = w_sv w; f = fd (stream sv i) in
      if f < 0 then Inr w
      else if f > socketFdMax sv then Inl Abort_inconsistent_fd
      else if f \<in> writeSet sv then
        (if f \<notin> select_ws E then Inr (w\<lparr>w_sv := closeStream i sv\<rparr>)
         else
           (let w1 = w\<lparr>w_r := w_r w - 1, w_now := (if w_now w = 0 then epoch E i else w_now w)\<rparr> in
            case type (stream sv i) of
              CLIENT_JSON \<Rightarrow> send_state E i w1
            | CLIENT_JSON_STREAM \<Rightarrow> Inr (send_message i w1)
            | DATA_OUTPUT_STREAM \<Rightarrow> Inr (send_message i w1)
            | DATA_OUTPUT_COPY \<Rightarrow> Inr (send_message i w1)
            | _ \<Rightarrow> Inr w1))
      else Inr w)"

lemma write_slot_socketIdxMax:
  "write_slot E i w = Inr w1 \<Longrightarrow> socketIdxMax (w_sv w1) \<le> socketIdxMax (w_sv w)"
  using closeStream_socketIdxMax [of i "w_sv w"]
  by (auto simp: write_slot_def send_state_def send_message_def Let_def
      split: if_splits StreamType.splits sum.splits option.splits)

text \<open>The loop of line 497: it goes on while \<^verbatim>\<open>r > 0\<close> and \<^verbatim>\<open>i <= socketIdxMax\<close>.\<close>

function write_loop :: "write_env \<Rightarrow> nat \<Rightarrow> wloop \<Rightarrow> fault + wloop" where
  "write_loop E i w =
     (if w_r w > 0 \<and> int i \<le> socketIdxMax (w_sv w) then
        (case write_slot E i w of
           Inl f \<Rightarrow> Inl f
         | Inr w1 \<Rightarrow> write_loop E (Suc i) w1)
      else Inr w)"
  by pat_completeness auto
termination
proof (relation "measure (\<lambda>(E, i, w). nat (socketIdxMax (w_sv w) + 1 - int i))")
  show "wf (measure (\<lambda>(E, i, w). nat (socketIdxMax (w_sv w) + 1 - int i)))"
    by simp
next
  fix E :: write_env and i :: nat and w w1 :: wloop
  assume "w_r w > 0 \<and> int i \<le> socketIdxMax (w_sv w)" and "write_slot E i w = Inr w1"
  then show "((E, Suc i, w1), (E, i, w)) \<in> measure (\<lambda>(E, i, w). nat (socketIdxMax (w_sv w) + 1 - int i))"
    using write_slot_socketIdxMax [of E i w w1] by simp
qed

declare write_loop.simps [simp del]

text \<open>
  The function. The snapshot is freed and \<^verbatim>\<open>currentLen\<close> is set to 0 whatever the
  loop did.
\<close>

definition writeAllClients :: "write_env \<Rightarrow> server \<Rightarrow> fault + server \<times> event list" where
  "writeAllClients E sv =
     (let w0 = \<lparr> w_r = select_r E, w_now = 0, w_state = None, w_sv = sv, w_out = [] \<rparr> in
      case (if socketIdxMax sv \<ge> 0 then write_loop E (socketIdxMin sv) w0 else Inr w0) of
        Inl f \<Rightarrow> Inl f
      | Inr w \<Rightarrow>
          Inr ((w_sv w)\<lparr>glob := (glob (w_sv w))\<lparr>currentMessage := []\<rparr>\<rparr>, w_out w))"


subsection \<open>\<^verbatim>\<open>doServerWork\<close> (lines 891 to 899)\<close>

text \<open>
  Finitely many rounds of the endless loop. \<^verbatim>\<open>checkReadEvents\<close> is a parameter of each
  round: any function from the table to a fault or a table.
\<close>

fun doServerWork ::
  "((server \<Rightarrow> fault + server) \<times> write_env) list \<Rightarrow> server \<Rightarrow> fault + server \<times> event list" where
  "doServerWork [] sv = Inr (sv, [])"
| "doServerWork ((checkReadEvents, E) # rounds) sv =
     (case checkReadEvents sv of
        Inl f \<Rightarrow> Inl f
      | Inr sv1 \<Rightarrow>
          (case writeAllClients E sv1 of
             Inl f \<Rightarrow> Inl f
           | Inr (sv2, out) \<Rightarrow>
               (case doServerWork rounds sv2 of
                  Inl f \<Rightarrow> Inl f
                | Inr (sv3, out') \<Rightarrow> Inr (sv3, out @ out'))))"

subsection \<open>\<^verbatim>\<open>handleClientRequest\<close> (lines 801 to 863)\<close>







section \<open>Inputs used in the evaluations\<close>

definition line_ais_a :: string where
  "line_ais_a = ''{\"timestamp\":\"t\",\"src\":\"1\",\"dst\":\"255\",\"pgn\":\"129038\",\"description\":\"AIS Class A Position Report\",\"fields\":{\"Message ID\":\"1\",\"User ID\":\"244670316\"}}''"

definition line_ais_b :: string where
  "line_ais_b = ''{\"timestamp\":\"t\",\"src\":\"2\",\"dst\":\"255\",\"pgn\":\"129039\",\"description\":\"AIS Class B Position Report\",\"fields\":{\"Message ID\":\"18\",\"User ID\":\"338123456\"}}''"

definition line_actisense :: string where
  "line_actisense = ''{\"timestamp\":\"t\",\"src\":\"1\",\"dst\":\"255\",\"pgn\":\"4194304\",\"description\":\"Actisense\",\"fields\":{\"SID\":\"1\"}}''"

definition line_src_300 :: string where
  "line_src_300 = ''{\"timestamp\":\"t\",\"src\":\"300\",\"dst\":\"255\",\"pgn\":\"128267\",\"description\":\"Water Depth\",\"fields\":{\"Depth\":\"3.2\"}}''"

definition line_no_description :: string where
  "line_no_description = ''{\"timestamp\":\"t\",\"src\":\"1\",\"dst\":\"255\",\"pgn\":\"128267\",\"fields\":{\"Depth\":\"3.2\"}}''"

definition line_min_pgn :: string where
  "line_min_pgn = ''{\"timestamp\":\"t\",\"src\":\"1\",\"dst\":\"255\",\"pgn\":\"59391\",\"fields\":{\"A\":\"1\"}}''"

definition line_max_pgn :: string where
  "line_max_pgn = ''{\"timestamp\":\"t\",\"src\":\"1\",\"dst\":\"255\",\"pgn\":\"131000\",\"fields\":{\"A\":\"1\"}}''"

definition line_above_max :: string where
  "line_above_max = ''{\"timestamp\":\"t\",\"src\":\"1\",\"dst\":\"255\",\"pgn\":\"131001\",\"fields\":{\"A\":\"1\"}}''"

definition line_low_pgn :: string where
  "line_low_pgn = ''{\"timestamp\":\"t\",\"src\":\"1\",\"dst\":\"255\",\"pgn\":\"100\",\"fields\":{\"A\":\"1\"}}''"

definition line_wrap_pgn :: string where
  "line_wrap_pgn = ''{\"timestamp\":\"t\",\"src\":\"1\",\"dst\":\"255\",\"pgn\":\"2147483648\",\"fields\":{\"A\":\"1\"}}''"

definition line_huge_pgn :: string where
  "line_huge_pgn = ''{\"timestamp\":\"t\",\"src\":\"1\",\"dst\":\"255\",\"pgn\":\"18446744073709551616\",\"fields\":{\"A\":\"1\"}}''"

definition line_battery :: string where
  "line_battery = ''{\"timestamp\":\"t\",\"src\":\"3\",\"dst\":\"255\",\"pgn\":\"127508\",\"description\":\"Battery Status\",\"fields\":{\"Instance\":\"0\",\"Voltage\":\"12.6\"}}''"

definition line_battery_1 :: string where
  "line_battery_1 = ''{\"timestamp\":\"t\",\"src\":\"3\",\"dst\":\"255\",\"pgn\":\"127508\",\"description\":\"Battery Status\",\"fields\":{\"Instance\":\"1\",\"Voltage\":\"13.1\"}}''"

definition line_voltage :: string where
  "line_voltage = ''{\"timestamp\":\"t\",\"src\":\"3\",\"dst\":\"255\",\"pgn\":\"127508\",\"description\":\"Battery Status\",\"fields\":{\"Voltage\":\"12.9\"}}''"

text \<open>
  The store after \<open>line_battery\<close> was read at time 1000 and a write phase has emptied
  the accumulator (\<open>store_battery_reached\<close> below).
\<close>

definition store_battery :: globals where
  "store_battery =
     \<lparr> readLine = [], currentAlloc = 128, currentMessage = [], overrun = 1,
       pgnIdx = (\<lambda>i. None)
         (68117 \<mapsto> \<lparr> p_prn = 127508, p_description = Some ''Battery Status'',
                     p_message =
                       [\<lparr> m_src = 3, m_key2 = Some ''0'', m_time = 1120,
                          m_text = Some line_battery \<rparr>] \<rparr>),
       pgnList = [68117] \<rparr>"

text \<open>
  The store after three lines for source 3 and PGN 127508, with no write phase in
  between: \<open>line_battery\<close> (instance 0) at time 1000, \<open>line_battery_1\<close> (instance 1) at
  1100, and at 1150 \<open>line_voltage\<close>, which has no key field and takes slot 0, expired
  by then (\<open>store_three_reached\<close> below).
\<close>

definition store_three :: globals where
  "store_three =
     \<lparr> readLine = [], currentAlloc = 369,
       currentMessage = line_battery @ line_battery_1 @ line_voltage, overrun = 1,
       pgnIdx = (\<lambda>i. None)
         (68117 \<mapsto> \<lparr> p_prn = 127508, p_description = Some ''Battery Status'',
                     p_message =
                       [\<lparr> m_src = 3, m_key2 = None, m_time = 1270,
                          m_text = Some line_voltage \<rparr>,
                        \<lparr> m_src = 3, m_key2 = Some ''1'', m_time = 1220,
                          m_text = Some line_battery_1 \<rparr>] \<rparr>),
       pgnList = [68117] \<rparr>"

text \<open>
  Two lines of 4010 bytes for source 1 and PGN 127508 whose instance is 3900 times
  the same character.
\<close>

definition big_key :: "char \<Rightarrow> string" where
  "big_key c = replicate 3900 c"

definition big_line :: "char \<Rightarrow> string" where
  "big_line c =
     ''{\"timestamp\":\"t\",\"src\":\"1\",\"dst\":\"255\",\"pgn\":\"127508\",\"description\":\"Battery Status\",\"fields\":{\"Instance\":\"''
       @ big_key c @ ''\"}}''"

definition big_slot :: "char \<Rightarrow> int \<Rightarrow> Message" where
  "big_slot c t = \<lparr> m_src = 1, m_key2 = Some (big_key c), m_time = t, m_text = Some (big_line c) \<rparr>"

text \<open>
  The store after \<open>big_line CHR ''7''\<close> was read at time 1000 and
  \<open>big_line CHR ''8''\<close> at time 1001 (\<open>store_big_reached\<close> below).
\<close>

definition store_big :: globals where
  "store_big =
     \<lparr> readLine = [], currentAlloc = 8020,
       currentMessage = big_line (CHR ''7'') @ big_line (CHR ''8''), overrun = 1,
       pgnIdx = (\<lambda>i. None)
         (68117 \<mapsto> \<lparr> p_prn = 127508, p_description = Some ''Battery Status'',
                     p_message = [big_slot (CHR ''7'') 1120, big_slot (CHR ''8'') 1121] \<rparr>),
       pgnList = [68117] \<rparr>"

definition line_depth :: string where
  "line_depth = ''{\"timestamp\":\"t\",\"src\":\"1\",\"dst\":\"255\",\"pgn\":\"128267\",\"description\":\"Water Depth\",\"fields\":{\"Depth\":\"3.2\"}}''"

text \<open>
  A table with six slots in use: the standard input and output, two listening
  sockets, a snapshot client in slot 4 (descriptor 5) and a client in slot 5
  (descriptor 6) that has sent the marker; every other slot is as the static array
  starts, all zero. The store is \<open>store_battery\<close>. Then three results of \<^verbatim>\<open>select\<close>:
  every descriptor of the write set is ready; none is; the standard output and
  descriptor 6 are.
\<close>

definition idle_slot :: StreamInfo where
  "idle_slot = \<lparr> fd = 0, type = SOCKET_TYPE_ANY, timeout = 0, buffer = replicate 4096 NUL, len = 0 \<rparr>"

definition server_clients :: server where
  "server_clients =
     \<lparr> stream = (\<lambda>i. idle_slot)
         (0 := idle_slot\<lparr>fd := 0, type := DATA_INPUT_STREAM, timeout := 500\<rparr>,
          1 := idle_slot\<lparr>fd := 1, type := DATA_OUTPUT_STREAM, timeout := 500\<rparr>,
          2 := idle_slot\<lparr>fd := 3, type := SERVER_JSON, timeout := 500\<rparr>,
          3 := idle_slot\<lparr>fd := 4, type := SERVER_NMEA0183, timeout := 500\<rparr>,
          4 := idle_slot\<lparr>fd := 5, type := CLIENT_JSON, timeout := 1500\<rparr>,
          5 := idle_slot\<lparr>fd := 6, type := CLIENT_JSON_STREAM, timeout := 1600\<rparr>),
       socketIdxMin = 0, socketIdxMax = 5, socketFdMax = 6,
       activeSet = {0, 1, 3, 4, 5, 6}, readSet = {0, 3, 4, 5, 6}, writeSet = {1, 5, 6},
       glob = store_battery \<rparr>"

definition env_all :: write_env where
  "env_all = \<lparr> select_r = 3, select_ws = {1, 5, 6}, epoch = (\<lambda>i. 2000), time_now = 1000 \<rparr>"

definition env_none :: write_env where
  "env_none = \<lparr> select_r = 0, select_ws = {}, epoch = (\<lambda>i. 2000), time_now = 1000 \<rparr>"

definition env_two :: write_env where
  "env_two = \<lparr> select_r = 2, select_ws = {1, 6}, epoch = (\<lambda>i. 2600), time_now = 1001 \<rparr>"

text \<open>The snapshot of \<open>store_battery\<close> at time 1000.\<close>

definition snapshot_battery :: string where
  "snapshot_battery =
     ''{\"127508\":'' @ [newline] @ ''  {\"description\":\"Battery Status\"'' @ [newline]
       @ ''  ,\"3_0\":'' @ line_battery @ [newline] @ ''  }'' @ [newline] @ ''}'' @ [newline]"

section \<open>Predicates of the statements about the parser\<close>

text \<open>The three checks of lines 586 to 602 that a line passes before it is scanned.\<close>

definition framed :: "string \<Rightarrow> bool" where
  "framed line =
     (strstr line ''\"fields\":'' \<noteq> None \<and> take 11 line = ''{\"timestamp''
      \<and> drop (length line - 2) line = ''}}'')"

text \<open>
  The line has no description field, or the value of the field has an end that
  line 689 or 690 finds, so that line 698 does not return.
\<close>

definition description_ok :: "string \<Rightarrow> bool" where
  "description_ok line =
     (case strstr line ''\"description\":'' of
        None \<Rightarrow> True
      | Some p \<Rightarrow>
          ptr_min (strchr (drop (p + 15) line) (CHR '':''))
                  (strchr (drop (p + 15) line) (CHR 0x22)) \<noteq> None)"

text \<open>
  The record of a line is in the store \<open>g'\<close>: the entry at \<open>idx\<close> exists and one of its
  slots holds the source, the text of the line and the expiry that line 798 sets.
\<close>

definition stored :: "int \<Rightarrow> string \<Rightarrow> int \<Rightarrow> int \<Rightarrow> nat \<Rightarrow> globals \<Rightarrow> bool" where
  "stored now line src prn idx g' =
     (case pgnIdx g' idx of
        None \<Rightarrow> False
      | Some pgn \<Rightarrow>
          (\<exists>m \<in> set (p_message pgn).
             m_src m = word_of_int src \<and> m_text m = Some (cstr line)
             \<and> m_time m = now + validity prn 5))"

text \<open>
  The call accepts the line: it returns, the text of the line has been appended to
  the accumulator, and the record is in the store at \<open>idx\<close>.
\<close>

definition accepted :: "int \<Rightarrow> stack \<Rightarrow> string \<Rightarrow> globals \<Rightarrow> nat \<Rightarrow> bool" where
  "accepted now junk line g idx =
     (case handleLine now junk line g of
        Inl f \<Rightarrow> False
      | Inr g' \<Rightarrow>
          currentMessage g' = currentMessage g @ cstr line
          \<and> stored now line (fst (scan_ids line junk)) (snd (snd (scan_ids line junk))) idx g')"


section \<open>Predicates of the statements about the write phase\<close>

text \<open>
  Slot \<open>j\<close> is open, its descriptor is in the write set and \<^verbatim>\<open>select\<close> reports it
  writable.
\<close>

definition ready :: "write_env \<Rightarrow> server \<Rightarrow> nat \<Rightarrow> bool" where
  "ready E sv j =
     (0 \<le> fd (stream sv j) \<and> fd (stream sv j) \<in> writeSet sv \<and> fd (stream sv j) \<in> select_ws E)"

text \<open>
  What holds of an event of a write phase that starts in \<open>sv\<close> and ends in \<open>sv'\<close>:
  its slot was open and reported writable; a snapshot went to a slot of type
  \<open>CLIENT_JSON\<close> that is closed afterwards; an accumulator event carries the
  accumulator of \<open>sv\<close>.
\<close>

definition sent_ok :: "write_env \<Rightarrow> server \<Rightarrow> server \<Rightarrow> event \<Rightarrow> bool" where
  "sent_ok E sv sv' e =
     (let k = slot_of e; f = fd (stream sv k) in
      0 \<le> f \<and> f \<in> select_ws E
      \<and> (if is_state e
         then type (stream sv k) = CLIENT_JSON \<and> fd (stream sv' k) = - 1
              \<and> (\<exists>s. e = Sent_state k f s)
         else e = Sent_message k f (currentMessage (glob sv))))"


section \<open>Predicates of the statements about the read handler\<close>










section \<open>The parser\<close>

lemmas cstring_defs = NUL_def cstr_def strlen_def strstr_def
lemmas scan_defs = scan_ids_def sscanf_ids_def scan_u_def match_lit_def isspace_def isdigit_def
  digit_value_def int32_def
lemmas key_defs = key_loop.simps secondaryKeyList_def skip_chars_def SKIP_CHARACTERS_def
  key_end_def ptr_min_def
lemmas pgn_defs = PrnToIdx_def MIN_PGN_def MAX_PGN_def ACTISENSE_BEM_def ACTISENSE_RNG_def
  PGN_SPACE_def
lemmas timeout_defs = validity_def secondaryKeyTimeout_def SENSOR_TIMEOUT_def AIS_TIMEOUT_def
  SONICHUB_TIMEOUT_def
lemmas store_defs = store_line_def lookup_pgn_def describe_def store_message_def choose_slot_def
  key_matches_def appendJSONMessage_def
lemmas line_defs = handleLine_def cstring_defs scan_defs key_defs store_defs pgn_defs
  timeout_defs init_globals_def

subsection \<open>Arithmetic of \<^verbatim>\<open>int\<close>\<close>

lemma int32_mod: "int32 x = (x + 2147483648) mod 4294967296 - 2147483648"
  by (simp add: int32_def int_word_sint)

lemma int32_range: "- 2147483648 \<le> int32 x \<and> int32 x < 2147483648"
  using sint_ge [of "word_of_int x :: 32 word"] sint_lt [of "word_of_int x :: 32 word"]
  by (simp add: int32_def)

lemma sint_range32: "- 2147483648 \<le> sint (w :: 32 word) \<and> sint w < 2147483648"
  using sint_ge [of w] sint_lt [of w] by simp

lemma scan_u_range:
  "scan_u s = Some (v, rest) \<Longrightarrow> - 2147483648 \<le> v \<and> v < 2147483648"
  using int32_range by (auto simp: scan_u_def Let_def split: if_splits)

lemma sscanf_ids_range:
  assumes "sscanf_ids s (a, b, c) = (src, dst, prn)"
    and "- 2147483648 \<le> c \<and> c < 2147483648"
  shows "- 2147483648 \<le> prn \<and> prn < 2147483648"
  using assms scan_u_range
  by (auto simp: sscanf_ids_def split: option.splits prod.splits)

lemma scan_ids_range:
  assumes "scan_ids line junk = (src, dst, prn)"
  shows "- 2147483648 \<le> prn \<and> prn < 2147483648"
proof -
  obtain a b c where j: "junk = (a, b, c)" by (cases junk)
  show ?thesis
  proof (cases "strstr line ''\"src\":''")
    case None
    with assms j have "prn = sint c" by (simp add: scan_ids_def)
    then show ?thesis using sint_range32 [of c] by simp
  next
    case (Some p)
    with assms j have "sscanf_ids (cstr (drop (p + 7) line)) (sint a, sint b, sint c) = (src, dst, prn)"
      by (simp add: scan_ids_def)
    from sscanf_ids_range [OF this sint_range32] show ?thesis .
  qed
qed

text \<open>
  The index that the macro gives for a PGN that passed line 620: in 59391..131000
  it is \<open>prn - 59391\<close>; below, it is negative, or the subtraction wraps and it is
  behind the array.
\<close>

lemma PrnToIdx_in_range:
  "MIN_PGN \<le> prn \<Longrightarrow> prn \<le> MAX_PGN \<Longrightarrow> PrnToIdx prn = prn - 59391"
  by (simp add: pgn_defs int32_mod)

lemma PrnToIdx_below:
  assumes "prn < MIN_PGN" and "- 2147483648 \<le> prn"
  shows "PrnToIdx prn < 0 \<or> PGN_SPACE \<le> PrnToIdx prn"
proof (cases "- 2147424257 \<le> prn")
  case True
  then have "PrnToIdx prn = prn - 59391"
    using assms by (simp add: pgn_defs int32_mod)
  then show ?thesis using assms by (simp add: pgn_defs)
next
  case False
  then have "PrnToIdx prn = prn - 59391 + 4294967296"
    using assms by (simp add: pgn_defs int32_mod) (smt (verit) mod_add_self2 mod_pos_pos_trivial)
  then show ?thesis using assms by (simp add: pgn_defs)
qed

text \<open>
  What the scan stores for digits that do not fit: \<open>2 ^ 31\<close> is read as the least
  \<^verbatim>\<open>int\<close>, and \<open>2 ^ 64\<close> as -1.
\<close>

lemma scan_ids_wraps:
  "scan_ids line_wrap_pgn (0, 0, 0) = (1, 255, - 2147483648)"
  "scan_ids line_huge_pgn (0, 0, 0) = (1, 255, - 1)"
  by (simp_all add: cstring_defs scan_defs line_wrap_pgn_def line_huge_pgn_def)

subsection \<open>The loop over the key table leaves \<open>k\<close> behind the table\<close>

lemma key_loop_index: "fst (key_loop line k key2) = max k (length secondaryKeyList)"
proof (induction line k key2 rule: key_loop.induct)
  case (1 line k key2)
  show ?case
  proof (cases "k < length secondaryKeyList")
    case True
    then show ?thesis using 1
      by (subst key_loop.simps) (auto split: option.splits simp: Let_def)
  next
    case False
    then show ?thesis by (subst key_loop.simps) simp
  qed
qed

lemma key_loop_leaves_5: "key_loop line 0 None = (5, snd (key_loop line 0 None))"
proof -
  have "fst (key_loop line 0 None) = 5"
    by (simp add: key_loop_index secondaryKeyList_def)
  then show ?thesis by (simp add: prod_eq_iff)
qed

text \<open>
  Whatever the line holds, the validity added to \<open>now\<close> is the one of entry 5 of
  \<open>secondaryKeyTimeout\<close>, unless the PGN is one of the two that are named.
\<close>

lemma validity_after_loop:
  "validity prn (fst (key_loop line 0 None)) =
     (if prn = 126996 then 3600 else if prn = 130816 then 2678400 else 120)"
  by (simp add: key_loop_index secondaryKeyList_def timeout_defs)

subsection \<open>The skip loop stays inside a line that ends with two braces\<close>

text \<open>
  The loop of line 632 skips the terminator as well. In a line that passed the check
  of line 598 it stops at the closing braces at the latest, so it does not leave the
  bytes of the line.
\<close>

lemma skip_chars_stops:
  assumes "2 \<le> length line" and "drop (length line - 2) line = ''}}''" and "n \<le> length line - 2"
  shows "skip_chars (drop n line) \<noteq> []"
proof -
  have "drop n line = take (length line - 2 - n) (drop n line) @ drop (length line - 2) line"
    using assms(1,3)
    by (metis add_diff_cancel_left' append_take_drop_id drop_drop le_add_diff_inverse add.commute)
  then have "CHR ''}'' \<in> set (drop n line)"
    using assms(2) by (metis in_set_conv_decomp append_Cons append_assoc)
  moreover have "strchr SKIP_CHARACTERS (CHR ''}'') = None"
    by (simp add: SKIP_CHARACTERS_def NUL_def)
  ultimately show ?thesis
    by (auto simp: skip_chars_def dropWhile_eq_Nil_conv)
qed

subsection \<open>A line that passed the three checks\<close>

lemma handleLine_framed:
  assumes "framed line" and "scan_ids line junk = (src, dst, prn)"
  shows "handleLine now junk line g =
     (if prn = 0 \<or> src = 0 \<or> MAX_PGN < prn then Inr (g\<lparr>readLine := []\<rparr>)
      else if PrnToIdx prn < 0 then Inl Abort_prn_out_of_range
      else if PGN_SPACE \<le> PrnToIdx prn then Inl PgnIdx_out_of_bounds
      else store_line now line src prn 5 (snd (key_loop line 0 None)) (nat (PrnToIdx prn))
             (appendJSONMessage line (g\<lparr>readLine := []\<rparr>)))"
proof -
  obtain key2 where kl: "key_loop line 0 None = (5, key2)"
    using key_loop_leaves_5 by blast
  show ?thesis
    using assms by (auto simp: handleLine_def framed_def Let_def kl)
qed

lemma appendJSONMessage_fields:
  "currentMessage (appendJSONMessage line g) = currentMessage g @ cstr line"
  "pgnIdx (appendJSONMessage line g) = pgnIdx g"
  "pgnList (appendJSONMessage line g) = pgnList g"
  "readLine (appendJSONMessage line g) = readLine g"
  by (simp_all add: appendJSONMessage_def Let_def)

text \<open>
  A PGN below 59391 that is not 0: the call ends in a fault. \<^verbatim>\<open>logAbort\<close> ends the
  process, or, where the subtraction of the macro wraps, line 665 reads behind the
  array.
\<close>

lemma handleLine_low_pgn:
  assumes "framed line" and "scan_ids line junk = (src, dst, prn)" and "src \<noteq> 0"
    and "prn \<noteq> 0" and "prn < MIN_PGN"
  shows "handleLine now junk line g = Inl Abort_prn_out_of_range
       \<or> handleLine now junk line g = Inl PgnIdx_out_of_bounds"
proof -
  from scan_ids_range [OF assms(2)] have "- 2147483648 \<le> prn" by simp
  from PrnToIdx_below [OF assms(5) this] assms(3,4,5) show ?thesis
    by (auto simp: handleLine_framed [OF assms(1,2)] MIN_PGN_def MAX_PGN_def)
qed

lemma handleLine_low_pgn_evaluated:
  "handleLine 1000 (0, 0, 0) line_low_pgn init_globals = Inl Abort_prn_out_of_range"
  "handleLine 1000 (0, 0, 0) line_wrap_pgn init_globals = Inl PgnIdx_out_of_bounds"
  by (simp_all add: line_defs line_low_pgn_def line_wrap_pgn_def)

subsection \<open>The accumulator\<close>

text \<open>
  When the block has to grow and is not larger than what it holds, as on the first
  accepted line of a run, the terminator that \<^verbatim>\<open>strcpy\<close> writes is behind the new end
  of the block.
\<close>

lemma appendJSONMessage_overrun:
  assumes "currentAlloc g \<le> length (currentMessage g)" and "cstr message \<noteq> []"
  shows "currentAlloc (appendJSONMessage message g) = currentAlloc g + strlen message"
    and "1 \<le> overrun (appendJSONMessage message g)"
proof -
  have "currentAlloc g < length (currentMessage g) + strlen message"
    using assms by (cases "cstr message") (simp_all add: strlen_def)
  then show "currentAlloc (appendJSONMessage message g) = currentAlloc g + strlen message"
    and "1 \<le> overrun (appendJSONMessage message g)"
    using assms(1) by (auto simp: appendJSONMessage_def Let_def max_def)
qed

subsection \<open>The store used in the evaluations is reached from the empty store\<close>

lemma store_battery_reached:
  "handleLine 1000 (0, 0, 0) line_battery init_globals =
     Inr (store_battery\<lparr>currentMessage := line_battery\<rparr>)"
  by (simp add: line_defs line_battery_def store_battery_def)

subsection \<open>The expiry of a stored message\<close>

text \<open>
  C1. The claim: a record whose key field is \<open>Message ID\<close> or \<open>User ID\<close> expires
  3600 seconds after \<open>now\<close>. The code at an AIS position report (PGN 129038, both
  fields present) read at time 1000 into the empty store: the slot expires at 1120,
  the sensor validity, because \<open>k\<close> indexes \<open>secondaryKeyTimeout\<close> after the loop has
  run to its end (\<open>validity_after_loop\<close>).
\<close>

theorem message_id_expiry_is_sensor:
  "handleLine 1000 (0, 0, 0) line_ais_a init_globals =
     Inr \<lparr> readLine = [], currentAlloc = 148, currentMessage = line_ais_a, overrun = 1,
           pgnIdx = (\<lambda>i. None)(69647 \<mapsto>
             \<lparr> p_prn = 129038, p_description = Some ''AIS Class A Position Report'',
               p_message = [\<lparr> m_src = 1, m_key2 = Some ''244670316'',
                              m_time = 1000 + SENSOR_TIMEOUT, m_text = Some line_ais_a \<rparr>] \<rparr>),
           pgnList = [69647] \<rparr>"
  by (simp add: line_defs line_ais_a_def)

subsection \<open>The secondary key\<close>

text \<open>
  C6. The claim: of several key fields in one line the first of the table is used.
  The code at a line that holds \<open>Message ID\<close> (entry 2, value 18) and \<open>User ID\<close>
  (entry 3, value 338123456): the key is the value of \<open>User ID\<close>, the last entry that
  matches, since the loop goes on after a match.
\<close>

theorem key_loop_last_match_wins:
  "key_loop line_ais_b 0 None = (5, Some ''338123456'')"
  by (simp add: cstring_defs key_defs line_ais_b_def)

subsection \<open>The slot that a record goes to\<close>

lemma find_key_matches:
  "find_key ms src key2 n < n + length ms \<Longrightarrow>
   key_matches (ms ! (find_key ms src key2 n - n)) src key2"
proof (induction ms arbitrary: n)
  case Nil
  then show ?case by simp
next
  case (Cons m ms)
  show ?case
  proof (cases "key_matches m src key2")
    case True
    then show ?thesis by simp
  next
    case False
    then have f: "find_key (m # ms) src key2 n = find_key ms src key2 (Suc n)"
      by simp
    have ge: "Suc n \<le> find_key ms src key2 (Suc n)"
      by (induction ms arbitrary: n) (auto intro: Suc_leD)
    from Cons.prems f have "find_key ms src key2 (Suc n) < Suc n + length ms"
      by simp
    from Cons.IH [OF this] ge f show ?thesis
      by (simp add: Suc_diff_le)
  qed
qed

lemma choose_slot_slot:
  assumes "choose_slot now src key2 ms = (i, ms1)"
  shows "i < length ms1 \<and> m_src (ms1 ! i) = word_of_int src"
proof (cases "find_key ms src key2 0 < length ms")
  case True
  with assms have i: "i = find_key ms src key2 0" and m: "ms1 = ms"
    by (auto simp: choose_slot_def Let_def)
  from find_key_matches [of ms src key2 0] True have "uint (m_src (ms ! i)) = src"
    by (simp add: i key_matches_def)
  then have "m_src (ms ! i) = word_of_int src"
    by (metis word_of_int_uint)
  with True i m show ?thesis by simp
next
  case False
  show ?thesis
  proof (cases "find_expired ms now 0 < length ms")
    case True
    with False assms show ?thesis
      by (auto simp: choose_slot_def Let_def)
  next
    case no: False
    with False assms show ?thesis
      by (auto simp: choose_slot_def Let_def nth_append)
  qed
qed

lemma store_message_holds:
  "\<exists>m \<in> set (store_message now src key2 line valid ms).
     m_src m = word_of_int src \<and> m_text m = Some (cstr line) \<and> m_time m = now + valid"
proof -
  obtain i ms1 where c: "choose_slot now src key2 ms = (i, ms1)"
    by (cases "choose_slot now src key2 ms")
  from choose_slot_slot [OF c] have i: "i < length ms1" and s: "m_src (ms1 ! i) = word_of_int src"
    by simp_all
  let ?m = "(ms1 ! i)\<lparr>m_text := Some (cstr line), m_time := now + valid\<rparr>"
  have "store_message now src key2 line valid ms = ms1[i := ?m]"
    by (simp add: store_message_def c)
  moreover have "?m \<in> set (ms1[i := ?m])"
    using i by (simp add: set_update_memI)
  ultimately have "?m \<in> set (store_message now src key2 line valid ms)"
    by simp
  then show ?thesis
    using s by (intro bexI [where x = ?m]) simp_all
qed

lemma describe_goes_on: "description_ok line \<Longrightarrow> snd (describe line prn pgn)"
  by (auto simp: description_ok_def describe_def Let_def split: option.splits)

lemma store_line_stores:
  assumes "pgnIdx g idx = None \<longrightarrow> length (pgnList g) \<noteq> 512" and "description_ok line"
  shows "case store_line now line src prn 5 key2 idx g of
           Inl f \<Rightarrow> False
         | Inr g' \<Rightarrow> currentMessage g' = currentMessage g \<and> stored now line src prn idx g'"
proof -
  have "\<exists>pgn g1. lookup_pgn idx g = Inr (pgn, g1) \<and> currentMessage g1 = currentMessage g"
    using assms(1) by (cases "pgnIdx g idx") (simp_all add: lookup_pgn_def)
  then obtain pgn g1 where l: "lookup_pgn idx g = Inr (pgn, g1)"
    and c: "currentMessage g1 = currentMessage g"
    by blast
  obtain pgn1 where d: "describe line prn pgn = (pgn1, True)"
    using describe_goes_on [OF assms(2), of prn pgn] by (cases "describe line prn pgn") auto
  show ?thesis
    using store_message_holds [of now src key2 line "validity prn 5" "p_message pgn1"] c
    by (simp add: store_line_def l d stored_def)
qed

lemma framed_cstr_nonempty: "framed line \<Longrightarrow> cstr line \<noteq> []"
proof -
  assume "framed line"
  then have "take 11 line = ''{\"timestamp''"
    by (simp add: framed_def)
  then obtain rest where "line = CHR ''{'' # rest"
    by (cases line) auto
  then show ?thesis
    by (simp add: cstr_def NUL_def)
qed

subsection \<open>The range of PGNs\<close>

text \<open>
  C3, the claim as stated fails: a record whose PGN is 0x400000, the first of the
  Actisense band, leaves the store as it was (the line is not even appended to the
  accumulator), because line 620 returns for every PGN above 131000.
\<close>

theorem actisense_record_dropped:
  "handleLine 1000 (0, 0, 0) line_actisense init_globals = Inr init_globals"
  by (simp add: line_defs line_actisense_def)

text \<open>
  C3, amended. For a line that passed the three checks, whose source is not 0,
  whose description (if it has one) has an end, and for which the list of PGNs has
  room: the call accepts the line, with the record in the entry at index
  \<open>prn - 59391\<close>, exactly when the PGN is in 59391..131000, and that index is what
  \<open>PrnToIdx\<close> gives; a PGN of 0 or above 131000, the Actisense band included, is
  dropped, and nothing but the line buffer changes.
\<close>

theorem pgn_gate:
  assumes fr: "framed line" and sc: "scan_ids line junk = (src, dst, prn)" and nz: "src \<noteq> 0"
    and room: "pgnIdx g (nat (prn - MIN_PGN)) = None \<longrightarrow> length (pgnList g) \<noteq> 512"
    and ds: "description_ok line"
  shows "accepted now junk line g (nat (prn - MIN_PGN)) = (MIN_PGN \<le> prn \<and> prn \<le> MAX_PGN)
       \<and> (MIN_PGN \<le> prn \<and> prn \<le> MAX_PGN \<longrightarrow> PrnToIdx prn = prn - MIN_PGN)
       \<and> (prn = 0 \<or> MAX_PGN < prn \<longrightarrow> handleLine now junk line g = Inr (g\<lparr>readLine := []\<rparr>))"
proof -
  let ?g1 = "appendJSONMessage line (g\<lparr>readLine := []\<rparr>)"
  have hl: "handleLine now junk line g =
     (if prn = 0 \<or> src = 0 \<or> MAX_PGN < prn then Inr (g\<lparr>readLine := []\<rparr>)
      else if PrnToIdx prn < 0 then Inl Abort_prn_out_of_range
      else if PGN_SPACE \<le> PrnToIdx prn then Inl PgnIdx_out_of_bounds
      else store_line now line src prn 5 (snd (key_loop line 0 None)) (nat (PrnToIdx prn)) ?g1)"
    by (rule handleLine_framed [OF fr sc])
  have ne: "cstr line \<noteq> []"
    by (rule framed_cstr_nonempty [OF fr])
  have drop: "prn = 0 \<or> MAX_PGN < prn \<Longrightarrow> handleLine now junk line g = Inr (g\<lparr>readLine := []\<rparr>)"
    by (auto simp: hl)
  have a1: "\<not> accepted now junk line g (nat (prn - MIN_PGN))" if "prn = 0 \<or> MAX_PGN < prn"
    using drop [OF that] ne by (simp add: accepted_def)
  have a2: "\<not> accepted now junk line g (nat (prn - MIN_PGN))" if "prn \<noteq> 0" and "prn < MIN_PGN"
  proof -
    from scan_ids_range [OF sc] have "- 2147483648 \<le> prn" by simp
    from PrnToIdx_below [OF that(2) this] that nz show ?thesis
      by (auto simp: accepted_def hl MIN_PGN_def MAX_PGN_def)
  qed
  have a3: "accepted now junk line g (nat (prn - MIN_PGN))"
    and ix: "PrnToIdx prn = prn - MIN_PGN" if "MIN_PGN \<le> prn" and "prn \<le> MAX_PGN"
  proof -
    show idx: "PrnToIdx prn = prn - MIN_PGN"
      using PrnToIdx_in_range [OF that] by (simp add: MIN_PGN_def)
    have h: "handleLine now junk line g =
        store_line now line src prn 5 (snd (key_loop line 0 None)) (nat (prn - MIN_PGN)) ?g1"
      using that nz by (simp add: hl idx) (simp add: pgn_defs)
    have "pgnIdx ?g1 (nat (prn - MIN_PGN)) = None \<longrightarrow> length (pgnList ?g1) \<noteq> 512"
      using room by (simp add: appendJSONMessage_fields)
    from store_line_stores [OF this ds, of now src prn "snd (key_loop line 0 None)"]
    show "accepted now junk line g (nat (prn - MIN_PGN))"
      by (simp add: accepted_def h sc appendJSONMessage_fields split: sum.splits)
  qed
  show ?thesis
  proof (cases "MIN_PGN \<le> prn \<and> prn \<le> MAX_PGN")
    case True
    then have "\<not> (prn = 0 \<or> MAX_PGN < prn)"
      by (simp add: MIN_PGN_def)
    with True a3 ix show ?thesis by blast
  next
    case False
    have "\<not> accepted now junk line g (nat (prn - MIN_PGN))"
    proof (cases "prn = 0 \<or> MAX_PGN < prn")
      case True
      then show ?thesis by (rule a1)
    next
      case no: False
      with False have "prn \<noteq> 0" and "prn < MIN_PGN" by auto
      then show ?thesis by (rule a2)
    qed
    with False drop show ?thesis by blast
  qed
qed

theorem pgn_gate_witness:
  "framed line_min_pgn \<and> scan_ids line_min_pgn (0, 0, 0) = (1, 255, 59391)
   \<and> description_ok line_min_pgn \<and> PrnToIdx 59391 = 0
   \<and> accepted 1000 (0, 0, 0) line_min_pgn store_battery 0
   \<and> framed line_max_pgn \<and> scan_ids line_max_pgn (0, 0, 0) = (1, 255, 131000)
   \<and> description_ok line_max_pgn
   \<and> accepted 1000 (0, 0, 0) line_max_pgn store_battery 71609
   \<and> framed line_above_max \<and> scan_ids line_above_max (0, 0, 0) = (1, 255, 131001)
   \<and> description_ok line_above_max
   \<and> handleLine 1000 (0, 0, 0) line_above_max store_battery = Inr store_battery
   \<and> framed line_actisense \<and> scan_ids line_actisense (0, 0, 0) = (1, 255, 4194304)
   \<and> description_ok line_actisense
   \<and> handleLine 1000 (0, 0, 0) line_actisense store_battery = Inr store_battery
   \<and> \<not> accepted 1000 (0, 0, 0) line_actisense store_battery (nat (4194304 - MIN_PGN))"
proof -
  have f1: "framed line_min_pgn" and f2: "framed line_max_pgn"
    and f3: "framed line_above_max" and f4: "framed line_actisense"
    by (simp_all add: framed_def cstring_defs line_min_pgn_def line_max_pgn_def
        line_above_max_def line_actisense_def)
  have s1: "scan_ids line_min_pgn (0, 0, 0) = (1, 255, 59391)"
    by (simp add: cstring_defs scan_defs line_min_pgn_def)
  have s2: "scan_ids line_max_pgn (0, 0, 0) = (1, 255, 131000)"
    by (simp add: cstring_defs scan_defs line_max_pgn_def)
  have s3: "scan_ids line_above_max (0, 0, 0) = (1, 255, 131001)"
    by (simp add: cstring_defs scan_defs line_above_max_def)
  have s4: "scan_ids line_actisense (0, 0, 0) = (1, 255, 4194304)"
    by (simp add: cstring_defs scan_defs line_actisense_def)
  have d1: "description_ok line_min_pgn" and d2: "description_ok line_max_pgn"
    and d3: "description_ok line_above_max"
    by (simp_all add: description_ok_def cstring_defs line_min_pgn_def line_max_pgn_def
        line_above_max_def)
  have d4: "description_ok line_actisense"
    by (simp add: description_ok_def cstring_defs ptr_min_def line_actisense_def)
  have n: "(1::int) \<noteq> 0" by simp
  have r: "store_battery\<lparr>readLine := []\<rparr> = store_battery"
    by (simp add: store_battery_def)
  have room: "pgnIdx store_battery i = None \<longrightarrow> length (pgnList store_battery) \<noteq> 512" for i
    by (simp add: store_battery_def)
  show ?thesis
    using pgn_gate [OF f1 s1 n room d1, of 1000]
      pgn_gate [OF f2 s2 n room d2, of 1000]
      pgn_gate [OF f3 s3 n room d3, of 1000]
      pgn_gate [OF f4 s4 n room d4, of 1000] f1 f2 f3 f4 s1 s2 s3 s4 d1 d2 d3 d4 r
    by (simp add: MIN_PGN_def MAX_PGN_def)
qed


subsection \<open>The source address\<close>

text \<open>
  C9. The claim: the source of an accepted record is in 0..255, the slot records the
  source that was parsed, and a second insertion finds the slot of the first. The
  code at a line with source 300, read twice (at 1000 and at 1001) into the empty
  store: the line is accepted, both slots record 44, and the second insertion did
  not find the first slot, since line 714 compares the stored byte with the
  \<^verbatim>\<open>int\<close> 300: the PGN has two slots with the same key.
\<close>

theorem src_300_never_found:
  "(case handleLine 1000 (0, 0, 0) line_src_300 init_globals of
      Inl f \<Rightarrow> Inl f
    | Inr g \<Rightarrow> handleLine 1001 (0, 0, 0) line_src_300 g) =
     Inr \<lparr> readLine = [], currentAlloc = 218, currentMessage = line_src_300 @ line_src_300,
           overrun = 1,
           pgnIdx = (\<lambda>i. None)(68876 \<mapsto>
             \<lparr> p_prn = 128267, p_description = Some ''Water Depth'',
               p_message =
                 [\<lparr> m_src = 44, m_key2 = None, m_time = 1120, m_text = Some line_src_300 \<rparr>,
                  \<lparr> m_src = 44, m_key2 = None, m_time = 1121, m_text = Some line_src_300 \<rparr>] \<rparr>),
           pgnList = [68876] \<rparr>"
proof -
  have w: "(300 :: 8 word) = 44"
    by (simp add: word_uint_eq_iff)
  show ?thesis
    by (simp add: line_defs line_src_300_def w)
qed

subsection \<open>The description of a listed entry\<close>

text \<open>
  C10. The claim: when the serialiser runs, every listed entry has a description.
  The code at a line without a description field, read into the empty store: the
  entry is listed with a null description, and the serialiser reads through it
  (\<^verbatim>\<open>strlen(pgn->p_description)\<close>, line 310).
\<close>

theorem snapshot_reads_null_description:
  "(case handleLine 1000 (0, 0, 0) line_no_description init_globals of
      Inl f \<Rightarrow> Inl f
    | Inr g \<Rightarrow> getFullStateJSON 1000 g) = Inl Null_description"
  by (simp add: line_defs line_no_description_def getFullStateJSON_def)


section \<open>The store\<close>

subsection \<open>Inserting a record that is there already\<close>

lemma store_three_reached:
  "(case handleLine 1000 (0, 0, 0) line_battery init_globals of
      Inl f \<Rightarrow> Inl f
    | Inr g1 \<Rightarrow>
        (case handleLine 1100 (0, 0, 0) line_battery_1 g1 of
           Inl f \<Rightarrow> Inl f
         | Inr g2 \<Rightarrow> handleLine 1150 (0, 0, 0) line_voltage g2)) = Inr store_three"
  by (simp add: line_defs line_battery_def line_battery_1_def line_voltage_def store_three_def)

text \<open>
  C7. The claim: inserting a record identical to one in the store overwrites the
  slot of that record in place. The code at \<open>store_three\<close>, reached by three
  lines, where slot 1 of PGN 127508 holds source 3, key \<open>1\<close> and the text
  \<open>line_battery_1\<close>, and slot 0 holds the record of source 3 that has no key:
  \<open>line_battery_1\<close> is read again at time 1200. The lookup of lines 712 to 728 stops
  at slot 0, because a slot without a key matches every key of its source. The
  text of the record without key is overwritten and its slot gets the new expiry;
  slot 1, the identical record, keeps the expiry 1220 of its first insertion.
\<close>

theorem reinsert_overwrites_other_record:
  "(case handleLine 1000 (0, 0, 0) line_battery init_globals of
      Inl f \<Rightarrow> Inl f
    | Inr g1 \<Rightarrow>
        (case handleLine 1100 (0, 0, 0) line_battery_1 g1 of
           Inl f \<Rightarrow> Inl f
         | Inr g2 \<Rightarrow> handleLine 1150 (0, 0, 0) line_voltage g2)) = Inr store_three
   \<and> handleLine 1200 (0, 0, 0) line_battery_1 store_three =
     Inr (store_three
           \<lparr> currentAlloc := 497,
             currentMessage := line_battery @ line_battery_1 @ line_voltage @ line_battery_1,
             pgnIdx := (pgnIdx store_three)(68117 \<mapsto>
               \<lparr> p_prn = 127508, p_description = Some ''Battery Status'',
                 p_message =
                   [\<lparr> m_src = 3, m_key2 = None, m_time = 1320,
                      m_text = Some line_battery_1 \<rparr>,
                    \<lparr> m_src = 3, m_key2 = Some ''1'', m_time = 1220,
                      m_text = Some line_battery_1 \<rparr>] \<rparr>) \<rparr>)"
proof -
  have "handleLine 1200 (0, 0, 0) line_battery_1 store_three =
     Inr (store_three
           \<lparr> currentAlloc := 497,
             currentMessage := line_battery @ line_battery_1 @ line_voltage @ line_battery_1,
             pgnIdx := (pgnIdx store_three)(68117 \<mapsto>
               \<lparr> p_prn = 127508, p_description = Some ''Battery Status'',
                 p_message =
                   [\<lparr> m_src = 3, m_key2 = None, m_time = 1320,
                      m_text = Some line_battery_1 \<rparr>,
                    \<lparr> m_src = 3, m_key2 = Some ''1'', m_time = 1220,
                      m_text = Some line_battery_1 \<rparr>] \<rparr>) \<rparr>)"
    by (simp add: line_defs line_battery_def line_battery_1_def line_voltage_def store_three_def)
  with store_three_reached show ?thesis by simp
qed

section \<open>The snapshot\<close>

subsection \<open>C strings with a long run of one character\<close>

lemma cstr_Nil: "cstr [] = []"
  by (simp add: cstr_def)

lemma cstr_Cons: "cstr (x # xs) = (if x = NUL then [] else x # cstr xs)"
  by (simp add: cstr_def)

lemma cstr_NUL_free: "NUL \<notin> set s \<Longrightarrow> cstr s = s"
  by (auto simp: cstr_def takeWhile_eq_all_conv)

lemma big_key_length: "length (big_key c) = 3900"
  by (simp add: big_key_def)

lemma big_key_set: "set (big_key c) = {c}"
  by (simp add: big_key_def)

lemma big_key_Cons: "big_key c = c # replicate 3899 c"
proof -
  have "replicate (Suc 3899) c = c # replicate 3899 c"
    by (rule replicate_Suc)
  then show ?thesis by (simp add: big_key_def)
qed

lemma cstr_replicate: "c \<noteq> NUL \<Longrightarrow> cstr (replicate n c @ t) = replicate n c @ cstr t"
  by (induction n) (simp_all add: cstr_def)

lemma cstr_big_key: "c \<noteq> NUL \<Longrightarrow> cstr (big_key c @ t) = big_key c @ cstr t"
  by (simp add: big_key_def cstr_replicate)

lemma starts_with_replicate:
  "x \<noteq> c \<Longrightarrow> starts_with (replicate (Suc n) c @ t) (x # xs) = False"
  by simp

lemma find_sub_replicate:
  "x \<noteq> c \<Longrightarrow> find_sub (replicate n c @ t) (x # xs) = map_option (\<lambda>k. n + k) (find_sub t (x # xs))"
proof (induction n)
  case 0
  show ?case by (simp add: option.map_ident)
next
  case (Suc n)
  then show ?case
    by (simp add: option.map_comp comp_def)
qed

lemma starts_with_big_key: "x \<noteq> c \<Longrightarrow> starts_with (big_key c @ t) (x # xs) = False"
  by (simp add: big_key_Cons)

lemma find_sub_big_key:
  "x \<noteq> c \<Longrightarrow> find_sub (big_key c @ t) (x # xs) = map_option (\<lambda>k. 3900 + k) (find_sub t (x # xs))"
  by (simp add: big_key_def find_sub_replicate)

lemma strchr_replicate:
  "d \<noteq> c \<Longrightarrow> c \<noteq> NUL \<Longrightarrow> strchr (replicate n c @ t) d = map_option (\<lambda>k. n + k) (strchr t d)"
proof (induction n)
  case 0
  show ?case by (simp add: option.map_ident)
next
  case (Suc n)
  then show ?case
    by (simp add: option.map_comp comp_def)
qed

lemma strchr_big_key:
  "d \<noteq> c \<Longrightarrow> c \<noteq> NUL \<Longrightarrow> strchr (big_key c @ t) d = map_option (\<lambda>k. 3900 + k) (strchr t d)"
  by (simp add: big_key_def strchr_replicate)

lemma skip_chars_Cons:
  "skip_chars (x # xs) = (if strchr SKIP_CHARACTERS x \<noteq> None then skip_chars xs else x # xs)"
  by (simp add: skip_chars_def)

lemma skip_chars_big_key:
  "strchr SKIP_CHARACTERS c = None \<Longrightarrow> skip_chars (big_key c @ t) = big_key c @ t"
  by (simp add: skip_chars_def big_key_Cons)

lemmas big_simps = cstr_Nil cstr_Cons cstr_big_key starts_with_big_key find_sub_big_key
  strchr_big_key skip_chars_Cons skip_chars_big_key big_key_length NUL_def strlen_def strstr_def

lemma big_line_cstr: "cstr (big_line (CHR ''7'')) = big_line (CHR ''7'')"
  "cstr (big_line (CHR ''8'')) = big_line (CHR ''8'')"
  by (simp_all add: big_line_def big_simps)

lemma big_line_length: "length (big_line c) = 4010"
  by (simp add: big_line_def big_key_length)

lemma big_line_framed: "framed (big_line (CHR ''7''))" "framed (big_line (CHR ''8''))"
  by (simp_all add: framed_def big_line_def big_simps)

lemma big_line_ids:
  "scan_ids (big_line (CHR ''7'')) (0, 0, 0) = (1, 255, 127508)"
  "scan_ids (big_line (CHR ''8'')) (0, 0, 0) = (1, 255, 127508)"
  by (simp_all add: big_line_def big_simps scan_ids_def sscanf_ids_def scan_u_def match_lit_def
      isspace_def isdigit_def digit_value_def int32_def)

lemma big_line_key:
  "key_loop (big_line (CHR ''7'')) 0 None = (5, Some (big_key (CHR ''7'')))"
  "key_loop (big_line (CHR ''8'')) 0 None = (5, Some (big_key (CHR ''8'')))"
  by (simp_all add: big_line_def big_simps key_loop.simps secondaryKeyList_def SKIP_CHARACTERS_def
      key_end_def ptr_min_def)


subsection \<open>The store with two long entries\<close>

lemma big_line_describe:
  "describe (big_line (CHR ''7'')) 127508 \<lparr>p_prn = 0, p_description = None, p_message = []\<rparr> =
     (\<lparr>p_prn = 127508, p_description = Some ''Battery Status'', p_message = []\<rparr>, True)"
  by (simp add: describe_def big_line_def big_simps ptr_min_def)

lemma describe_known: "p_description pgn = Some d \<Longrightarrow> describe line prn pgn = (pgn, True)"
  by (simp add: describe_def)

lemma big_key_differ: "big_key (CHR ''8'') \<noteq> big_key (CHR ''7'')"
  by (simp add: big_key_Cons)

lemma store_big_reached:
  "(case handleLine 1000 (0, 0, 0) (big_line (CHR ''7'')) init_globals of
      Inl f \<Rightarrow> Inl f
    | Inr g1 \<Rightarrow> handleLine 1001 (0, 0, 0) (big_line (CHR ''8'')) g1) = Inr store_big"
  by (simp add: handleLine_framed [OF big_line_framed(1) big_line_ids(1)]
      handleLine_framed [OF big_line_framed(2) big_line_ids(2)]
      big_line_key pgn_defs int32_def store_line_def lookup_pgn_def appendJSONMessage_def
      big_line_describe describe_known store_message_def choose_slot_def key_matches_def
      big_line_cstr big_line_length strlen_def timeout_defs init_globals_def store_big_def
      big_slot_def big_key_differ)


lemma cstr_big_key_only: "cstr (big_key (CHR ''7'')) = big_key (CHR ''7'')"
  "cstr (big_key (CHR ''8'')) = big_key (CHR ''8'')"
  using cstr_big_key [of "CHR ''7''" "[]"] cstr_big_key [of "CHR ''8''" "[]"]
  by (simp_all add: NUL_def cstr_Nil)

lemmas print_defs = getFullStateJSON_def MAKE_SPACE_def INC_L_REMAIN_def snprintf_state_def
  strcpy_state_def format_pgn_def format_message_def size_t_def INITIAL_ALLOC_def NEXT_ALLOC_def
  decimal.simps

lemma snapshot_of_store_big:
  "getFullStateJSON 1002 store_big =
     Inr \<lparr> st_alloc = 12288, st_remain = 18446744073709551613,
           st_text =
             ''{\"127508\":'' @ [newline] @ ''  {\"description\":\"Battery Status\"'' @ [newline]
               @ ''  ,\"1_'' @ big_key (CHR ''7'') @ ''\":'' @ big_line (CHR ''7'') @ [newline]
               @ ''  ,\"1_'' @ big_key (CHR ''8'') @ ''\":'' @ take 415 (big_line (CHR ''8''))
               @ ''  }'' @ [newline] @ ''}'' @ [newline],
           st_past = 6 \<rparr>"
  by (simp add: store_big_def big_slot_def print_defs big_line_cstr cstr_big_key_only
      big_line_length big_key_length strlen_def cstr_Cons cstr_Nil NUL_def)

text \<open>
  C4. The claim: the snapshot at time \<open>T\<close> includes every entry with \<open>T \<le> m_time\<close>.
  The code at \<open>store_big\<close>, reached by two lines of 4010 bytes with instances of
  3900 bytes, at time 1002, when both slots are live: the first entry takes 7919
  bytes; for the second, \<^verbatim>\<open>MAKE_SPACE\<close> counts the text and 32 bytes but not the key
  and grows the block once, to 12288 bytes, of which 4324 remain, so \<^verbatim>\<open>snprintf\<close> cuts
  the entry after 4323 bytes, 415 bytes into its text. The two calls of \<^verbatim>\<open>strcpy\<close> that
  follow have 1 byte left and write 6 bytes behind the end of the block. The text
  that is returned has 12293 bytes; the second entry is not whole and has no end of
  line.
\<close>

theorem snapshot_cuts_second_entry:
  "(case handleLine 1000 (0, 0, 0) (big_line (CHR ''7'')) init_globals of
      Inl f \<Rightarrow> Inl f
    | Inr g1 \<Rightarrow> handleLine 1001 (0, 0, 0) (big_line (CHR ''8'')) g1) = Inr store_big
   \<and> getFullStateJSON 1002 store_big =
     Inr \<lparr> st_alloc = 12288, st_remain = 18446744073709551613,
           st_text =
             ''{\"127508\":'' @ [newline] @ ''  {\"description\":\"Battery Status\"'' @ [newline]
               @ ''  ,\"1_'' @ big_key (CHR ''7'') @ ''\":'' @ big_line (CHR ''7'') @ [newline]
               @ ''  ,\"1_'' @ big_key (CHR ''8'') @ ''\":'' @ take 415 (big_line (CHR ''8''))
               @ ''  }'' @ [newline] @ ''}'' @ [newline],
           st_past = 6 \<rparr>
   \<and> (case getFullStateJSON 1002 store_big of
        Inl f \<Rightarrow> 0
      | Inr st \<Rightarrow> length (st_text st)) = 12293"
  using store_big_reached snapshot_of_store_big
  by (simp add: big_key_length big_line_length)

section \<open>The write phase\<close>

subsection \<open>One pass and the whole loop\<close>

lemma closeStream_others: "j \<noteq> i \<Longrightarrow> stream (closeStream i sv) j = stream sv j"
  by (simp add: closeStream_def Let_def)

lemma closeStream_fd: "fd (stream (closeStream i sv) i) = - 1"
  by (simp add: closeStream_def Let_def)

lemma closeStream_glob: "glob (closeStream i sv) = glob sv"
  by (simp add: closeStream_def Let_def)

lemma closeStream_writeSet: "writeSet (closeStream i sv) = writeSet sv - {fd (stream sv i)}"
  by (simp add: closeStream_def Let_def)

text \<open>One pass of the loop: what it sends and what it leaves alone.\<close>

lemma write_slot_effect:
  assumes "write_slot E i w = Inr w1"
  shows "(\<exists>evs. w_out w1 = w_out w @ evs \<and> length evs \<le> 1
            \<and> (\<forall>e \<in> set evs. slot_of e = i \<and> 0 \<le> fd (stream (w_sv w) i)
                  \<and> fd (stream (w_sv w) i) \<in> select_ws E
                  \<and> (is_state e \<longrightarrow> e = Sent_state i (fd (stream (w_sv w) i)) (cstr (st_text (the (w_state w1))))
                        \<and> type (stream (w_sv w) i) = CLIENT_JSON
                        \<and> fd (stream (w_sv w1) i) = - 1)
                  \<and> (\<not> is_state e \<longrightarrow> e = Sent_message i (fd (stream (w_sv w) i)) (currentMessage (glob (w_sv w))))))
         \<and> (\<forall>j. j \<noteq> i \<longrightarrow> stream (w_sv w1) j = stream (w_sv w) j)
         \<and> (fd (stream (w_sv w) i) < 0 \<longrightarrow> w1 = w)
         \<and> glob (w_sv w1) = glob (w_sv w)"
  using assms
  by (auto simp: write_slot_def send_state_def send_message_def Let_def closeStream_others
        closeStream_fd closeStream_glob
      split: if_splits StreamType.splits sum.splits option.splits)


lemma write_slot_sent:
  assumes "write_slot E i w = Inr w1"
  obtains evs where "w_out w1 = w_out w @ evs" and "length evs \<le> 1"
    and "\<forall>e \<in> set evs. slot_of e = i \<and> sent_ok E (w_sv w) (w_sv w1) e"
proof -
  from write_slot_effect [OF assms] obtain evs where
    a: "w_out w1 = w_out w @ evs" and b: "length evs \<le> 1"
    and c: "\<forall>e \<in> set evs. slot_of e = i \<and> 0 \<le> fd (stream (w_sv w) i)
                  \<and> fd (stream (w_sv w) i) \<in> select_ws E
                  \<and> (is_state e \<longrightarrow> e = Sent_state i (fd (stream (w_sv w) i)) (cstr (st_text (the (w_state w1))))
                        \<and> type (stream (w_sv w) i) = CLIENT_JSON
                        \<and> fd (stream (w_sv w1) i) = - 1)
                  \<and> (\<not> is_state e \<longrightarrow> e = Sent_message i (fd (stream (w_sv w) i)) (currentMessage (glob (w_sv w))))"
    by blast
  have "\<forall>e \<in> set evs. slot_of e = i \<and> sent_ok E (w_sv w) (w_sv w1) e"
    using c by (auto simp: sent_ok_def Let_def)
  with a b show ?thesis using that by blast
qed

lemma write_loop_effect:
  "write_loop E i w = Inr w' \<Longrightarrow>
     (\<exists>evs. w_out w' = w_out w @ evs \<and> distinct (map slot_of evs)
          \<and> (\<forall>e \<in> set evs. i \<le> slot_of e \<and> sent_ok E (w_sv w) (w_sv w') e))
     \<and> (\<forall>j. j < i \<or> fd (stream (w_sv w) j) < 0 \<longrightarrow> stream (w_sv w') j = stream (w_sv w) j)
     \<and> glob (w_sv w') = glob (w_sv w)"
proof (induction E i w arbitrary: w' rule: write_loop.induct)
  case (1 E i w)
  show ?case
  proof (cases "w_r w > 0 \<and> int i \<le> socketIdxMax (w_sv w)")
    case False
    with "1.prems" have "w' = w"
      by (simp add: write_loop.simps)
    then show ?thesis by simp
  next
    case True
    with "1.prems" obtain w1 where
      s: "write_slot E i w = Inr w1" and l: "write_loop E (Suc i) w1 = Inr w'"
      by (subst (asm) write_loop.simps) (auto split: sum.splits)
    from write_slot_effect [OF s] have
      others: "\<forall>j. j \<noteq> i \<longrightarrow> stream (w_sv w1) j = stream (w_sv w) j"
      and closed: "fd (stream (w_sv w) i) < 0 \<longrightarrow> w1 = w"
      and g1: "glob (w_sv w1) = glob (w_sv w)"
      by blast+
    from write_slot_sent [OF s] obtain evs1 where
      o1: "w_out w1 = w_out w @ evs1" and n1: "length evs1 \<le> 1"
      and e1: "\<forall>e \<in> set evs1. slot_of e = i \<and> sent_ok E (w_sv w) (w_sv w1) e"
      by blast
    from "1.IH" [OF True s l] obtain evs2 where
      o2: "w_out w' = w_out w1 @ evs2" and d2: "distinct (map slot_of evs2)"
      and e2: "\<forall>e \<in> set evs2. Suc i \<le> slot_of e \<and> sent_ok E (w_sv w1) (w_sv w') e"
      and keep: "\<forall>j. j < Suc i \<or> fd (stream (w_sv w1) j) < 0 \<longrightarrow> stream (w_sv w') j = stream (w_sv w1) j"
      and g2: "glob (w_sv w') = glob (w_sv w1)"
      by blast
    have out: "w_out w' = w_out w @ (evs1 @ evs2)"
      using o1 o2 by simp
    have d1: "distinct (map slot_of evs1)"
      using n1 by (cases evs1) auto
    have dist: "distinct (map slot_of (evs1 @ evs2))"
      using d1 d2 e1 e2 by fastforce
    have ok1: "\<forall>e \<in> set evs1. i \<le> slot_of e \<and> sent_ok E (w_sv w) (w_sv w') e"
    proof
      fix e assume e: "e \<in> set evs1"
      with e1 have k: "slot_of e = i" and ok: "sent_ok E (w_sv w) (w_sv w1) e"
        by auto
      have "stream (w_sv w') i = stream (w_sv w1) i"
        using keep by simp
      with ok k show "i \<le> slot_of e \<and> sent_ok E (w_sv w) (w_sv w') e"
        by (simp add: sent_ok_def Let_def)
    qed
    have ok2: "\<forall>e \<in> set evs2. i \<le> slot_of e \<and> sent_ok E (w_sv w) (w_sv w') e"
    proof
      fix e assume e: "e \<in> set evs2"
      with e2 have k: "Suc i \<le> slot_of e" and ok: "sent_ok E (w_sv w1) (w_sv w') e"
        by auto
      have "stream (w_sv w1) (slot_of e) = stream (w_sv w) (slot_of e)"
        using others k by simp
      with ok k g1 show "i \<le> slot_of e \<and> sent_ok E (w_sv w) (w_sv w') e"
        by (auto simp: sent_ok_def Let_def split: if_splits)
    qed
    have same: "\<forall>j. j < i \<or> fd (stream (w_sv w) j) < 0 \<longrightarrow> stream (w_sv w') j = stream (w_sv w) j"
    proof (intro allI impI)
      fix j assume j: "j < i \<or> fd (stream (w_sv w) j) < 0"
      show "stream (w_sv w') j = stream (w_sv w) j"
      proof (cases "j = i")
        case True
        with j have "w1 = w" using closed by simp
        with keep True show ?thesis by simp
      next
        case False
        then have "stream (w_sv w1) j = stream (w_sv w) j"
          using others by simp
        with j keep show ?thesis by auto
      qed
    qed
    show ?thesis
      using out dist ok1 ok2 same g1 g2 by auto
  qed
qed


lemma writeAllClients_effect:
  assumes "writeAllClients E sv = Inr (sv', out)"
  shows "distinct (map slot_of out)"
    and "\<forall>e \<in> set out. sent_ok E sv sv' e"
    and "\<forall>j. fd (stream sv j) < 0 \<longrightarrow> stream sv' j = stream sv j"
    and "currentMessage (glob sv') = []"
proof -
  let ?w0 = "\<lparr> w_r = select_r E, w_now = 0, w_state = None, w_sv = sv, w_out = [] \<rparr>"
  obtain w where
    w: "(if socketIdxMax sv \<ge> 0 then write_loop E (socketIdxMin sv) ?w0 else Inr ?w0) = Inr w"
    and sv': "sv' = (w_sv w)\<lparr>glob := (glob (w_sv w))\<lparr>currentMessage := []\<rparr>\<rparr>"
    and out: "out = w_out w"
    using assms by (auto simp: writeAllClients_def Let_def split: sum.splits)
  have "(\<exists>evs. w_out w = w_out ?w0 @ evs \<and> distinct (map slot_of evs)
          \<and> (\<forall>e \<in> set evs. socketIdxMin sv \<le> slot_of e \<and> sent_ok E (w_sv ?w0) (w_sv w) e))
     \<and> (\<forall>j. j < socketIdxMin sv \<or> fd (stream (w_sv ?w0) j) < 0 \<longrightarrow>
            stream (w_sv w) j = stream (w_sv ?w0) j)
     \<and> glob (w_sv w) = glob (w_sv ?w0)"
  proof (cases "socketIdxMax sv \<ge> 0")
    case True
    with w have "write_loop E (socketIdxMin sv) ?w0 = Inr w" by simp
    from write_loop_effect [OF this] show ?thesis .
  next
    case False
    with w have "w = ?w0" by simp
    then show ?thesis by simp
  qed
  then have d: "distinct (map slot_of (w_out w))"
    and ok: "\<forall>e \<in> set (w_out w). sent_ok E sv (w_sv w) e"
    and keep: "\<forall>j. fd (stream sv j) < 0 \<longrightarrow> stream (w_sv w) j = stream sv j"
    by auto
  show "distinct (map slot_of out)"
    using d out by simp
  show "\<forall>e \<in> set out. sent_ok E sv sv' e"
    using ok out sv' by (simp add: sent_ok_def Let_def)
  show "\<forall>j. fd (stream sv j) < 0 \<longrightarrow> stream sv' j = stream sv j"
    using keep sv' by simp
  show "currentMessage (glob sv') = []"
    using sv' by simp
qed

lemma distinct_slots_count:
  assumes "distinct (map slot_of out)"
  shows "length (filter (\<lambda>e. is_state e \<and> slot_of e = i) out) \<le> 1"
  using assms
proof (induction out)
  case Nil
  then show ?case by simp
next
  case (Cons e out)
  show ?case
  proof (cases "slot_of e = i")
    case True
    then have "filter (\<lambda>e. is_state e \<and> slot_of e = i) out = []"
      using Cons.prems by (force simp: filter_empty_conv image_iff)
    then show ?thesis by simp
  next
    case False
    then show ?thesis using Cons by simp
  qed
qed

lemma doServerWork_states:
  assumes "doServerWork rounds sv = Inr (sv', out)"
    and "\<forall>(checkReadEvents, E) \<in> set rounds.
           \<forall>s s1. checkReadEvents s = Inr s1 \<longrightarrow> fd (stream s i) < 0 \<longrightarrow> fd (stream s1 i) < 0"
  shows "length (filter (\<lambda>e. is_state e \<and> slot_of e = i) out) \<le> 1
       \<and> (fd (stream sv i) < 0 \<longrightarrow> filter (\<lambda>e. is_state e \<and> slot_of e = i) out = [])
       \<and> (fd (stream sv i) < 0 \<or> filter (\<lambda>e. is_state e \<and> slot_of e = i) out \<noteq> [] \<longrightarrow>
            fd (stream sv' i) < 0)"
  using assms
proof (induction rounds arbitrary: sv sv' out)
  case Nil
  then show ?case by auto
next
  case (Cons round rounds)
  obtain checkReadEvents E where round: "round = (checkReadEvents, E)"
    by (cases round)
  from Cons.prems(1) round obtain sv1 sv2 out1 out2 where
    r: "checkReadEvents sv = Inr sv1" and wr: "writeAllClients E sv1 = Inr (sv2, out1)"
    and rest: "doServerWork rounds sv2 = Inr (sv', out2)" and out: "out = out1 @ out2"
    by (auto split: sum.splits prod.splits)
  let ?P = "\<lambda>e. is_state e \<and> slot_of e = i"
  have stay: "fd (stream sv i) < 0 \<longrightarrow> fd (stream sv1 i) < 0"
    using Cons.prems(2) round r by auto
  from writeAllClients_effect [OF wr] have
    d1: "distinct (map slot_of out1)" and ok1: "\<forall>e \<in> set out1. sent_ok E sv1 sv2 e"
    and keep1: "\<forall>j. fd (stream sv1 j) < 0 \<longrightarrow> stream sv2 j = stream sv1 j"
    by blast+
  have c1: "length (filter ?P out1) \<le> 1"
    using distinct_slots_count [OF d1] .
  have closed1: "fd (stream sv1 i) < 0 \<longrightarrow> filter ?P out1 = [] \<and> fd (stream sv2 i) < 0"
    using ok1 keep1 by (auto simp: filter_empty_conv sent_ok_def Let_def)
  have sent1: "filter ?P out1 \<noteq> [] \<longrightarrow> fd (stream sv2 i) < 0"
    using ok1 by (auto simp: filter_empty_conv sent_ok_def Let_def)
  have "\<forall>(checkReadEvents, E) \<in> set rounds.
           \<forall>s s1. checkReadEvents s = Inr s1 \<longrightarrow> fd (stream s i) < 0 \<longrightarrow> fd (stream s1 i) < 0"
    using Cons.prems(2) by simp
  from Cons.IH [OF rest this] have
    c2: "length (filter ?P out2) \<le> 1"
    and closed2: "fd (stream sv2 i) < 0 \<longrightarrow> filter ?P out2 = []"
    and end2: "fd (stream sv2 i) < 0 \<or> filter ?P out2 \<noteq> [] \<longrightarrow> fd (stream sv' i) < 0"
    by blast+
  show ?case
  proof (cases "filter ?P out1 = []")
    case True
    then show ?thesis
      using c2 closed1 closed2 end2 stay out by auto
  next
    case False
    then have "fd (stream sv2 i) < 0" using sent1 by simp
    then show ?thesis
      using False c1 closed1 closed2 end2 stay out by auto
  qed
qed

subsection \<open>Evaluations of the write phase\<close>

lemmas write_defs = writeAllClients_def write_loop.simps write_slot_def send_state_def
  send_message_def closeStream_def UPDATE_INTERVAL_def print_defs

lemma depth_after_battery:
  "handleLine 1000 (0, 0, 0) line_depth store_battery =
     Inr (store_battery
           \<lparr> currentMessage := line_depth,
             pgnIdx := (pgnIdx store_battery)(68876 \<mapsto>
               \<lparr> p_prn = 128267, p_description = Some ''Water Depth'',
                 p_message = [\<lparr> m_src = 1, m_key2 = None, m_time = 1120,
                                m_text = Some line_depth \<rparr>] \<rparr>),
             pgnList := [68117, 68876] \<rparr>)"
  by (simp add: line_defs line_depth_def store_battery_def)

lemma rounds_battery:
  "case doServerWork [(Inr, env_all), (Inr, env_two)] server_clients of
     Inl f \<Rightarrow> False
   | Inr (sv', out) \<Rightarrow> out = [Sent_state 4 5 snapshot_battery] \<and> fd (stream sv' 4) = - 1"
  by (simp add: write_defs env_all_def env_two_def server_clients_def store_battery_def idle_slot_def
      cstring_defs snapshot_battery_def line_battery_def newline_def)


lemma write_all_battery:
  "case writeAllClients env_all server_clients of
     Inl f \<Rightarrow> False
   | Inr (sv1, out1) \<Rightarrow> out1 = [Sent_state 4 5 snapshot_battery]"
  by (simp add: write_defs env_all_def server_clients_def store_battery_def idle_slot_def
      cstring_defs snapshot_battery_def line_battery_def newline_def)

subsection \<open>A snapshot client is sent one snapshot\<close>

text \<open>
  C8. In one call of \<open>writeAllClients\<close> every snapshot goes to a slot of type
  \<open>CLIENT_JSON\<close>, that slot is closed when the call returns, and no slot is sent
  two snapshots. Over any number of rounds of \<open>doServerWork\<close>, whatever the read
  phases do, slot \<open>i\<close> is sent at most one snapshot as long as no read phase hands
  the closed slot to a new connection.
\<close>

theorem snapshot_once_then_closed:
  "(writeAllClients E sv = Inr (sv1, out1) \<longrightarrow>
      (\<forall>e \<in> set out1. is_state e \<longrightarrow>
         type (stream sv (slot_of e)) = CLIENT_JSON \<and> fd (stream sv1 (slot_of e)) = - 1)
      \<and> length (filter (\<lambda>e. is_state e \<and> slot_of e = i) out1) \<le> 1)
   \<and> (doServerWork rounds sv = Inr (sv', out)
      \<and> (\<forall>(checkReadEvents, E) \<in> set rounds.
           \<forall>s s1. checkReadEvents s = Inr s1 \<longrightarrow> fd (stream s i) < 0 \<longrightarrow> fd (stream s1 i) < 0) \<longrightarrow>
      length (filter (\<lambda>e. is_state e \<and> slot_of e = i) out) \<le> 1)"
proof (intro conjI impI)
  assume wr: "writeAllClients E sv = Inr (sv1, out1)"
  from writeAllClients_effect [OF wr]
  show "\<forall>e \<in> set out1. is_state e \<longrightarrow>
         type (stream sv (slot_of e)) = CLIENT_JSON \<and> fd (stream sv1 (slot_of e)) = - 1"
    by (auto simp: sent_ok_def Let_def)
  from writeAllClients_effect(1) [OF wr]
  show "length (filter (\<lambda>e. is_state e \<and> slot_of e = i) out1) \<le> 1"
    by (rule distinct_slots_count)
next
  assume "doServerWork rounds sv = Inr (sv', out)
      \<and> (\<forall>(checkReadEvents, E) \<in> set rounds.
           \<forall>s s1. checkReadEvents s = Inr s1 \<longrightarrow> fd (stream s i) < 0 \<longrightarrow> fd (stream s1 i) < 0)"
  then show "length (filter (\<lambda>e. is_state e \<and> slot_of e = i) out) \<le> 1"
    using doServerWork_states [of rounds sv sv' out i] by blast
qed


theorem snapshot_once_then_closed_witness:
  "type (stream server_clients 4) = CLIENT_JSON
   \<and> (case writeAllClients env_all server_clients of
        Inl f \<Rightarrow> False
      | Inr (sv1, out1) \<Rightarrow> out1 = [Sent_state 4 5 snapshot_battery] \<and> fd (stream sv1 4) = - 1)
   \<and> (case doServerWork [(Inr, env_all), (Inr, env_two)] server_clients of
        Inl f \<Rightarrow> False
      | Inr (sv', out) \<Rightarrow>
          out = [Sent_state 4 5 snapshot_battery]
          \<and> length (filter (\<lambda>e. is_state e \<and> slot_of e = 4) out) \<le> 1)"
proof -
  let ?rounds = "[(Inr, env_all), (Inr, env_two)]"
  from write_all_battery obtain sv1 out1 where
    w: "writeAllClients env_all server_clients = Inr (sv1, out1)"
    and o1: "out1 = [Sent_state 4 5 snapshot_battery]"
    by (auto split: sum.splits)
  from rounds_battery obtain sv' out where
    d: "doServerWork ?rounds server_clients = Inr (sv', out)"
    and o: "out = [Sent_state 4 5 snapshot_battery]"
    by (auto split: sum.splits)
  have stay: "\<forall>(checkReadEvents, E) \<in> set ?rounds.
      \<forall>s s1. checkReadEvents s = Inr s1 \<longrightarrow> fd (stream s 4) < 0 \<longrightarrow> fd (stream s1 4) < 0"
    by simp
  from snapshot_once_then_closed [of env_all server_clients sv1 out1 4 ?rounds sv' out] w d stay
  have a: "\<forall>e \<in> set out1. is_state e \<longrightarrow>
         type (stream server_clients (slot_of e)) = CLIENT_JSON \<and> fd (stream sv1 (slot_of e)) = - 1"
    and b: "length (filter (\<lambda>e. is_state e \<and> slot_of e = 4) out) \<le> 1"
    by blast+
  from a o1 have "type (stream server_clients 4) = CLIENT_JSON \<and> fd (stream sv1 4) = - 1"
    by simp
  then show ?thesis
    using w d o1 o b by simp
qed

subsection \<open>From the bytes of a line to the accumulator\<close>

lemma handleLine_readLine: "handleLine now junk line (g\<lparr>readLine := x\<rparr>) = handleLine now junk line g"
  by (simp add: handleLine_def store_line_def lookup_pgn_def appendJSONMessage_def Let_def
      split: prod.splits option.splits)

lemma feed_rest:
  "length (readLine g) + length rest < 4096 \<Longrightarrow> newline \<notin> set rest \<Longrightarrow>
   feed (map (\<lambda>c. (now, junk, c)) (rest @ [newline])) g = handleLine now junk (readLine g @ rest) g"
proof (induction rest arbitrary: g)
  case Nil
  then show ?case
    by (simp add: handleMessageByte_def newline_def split: sum.splits)
next
  case (Cons c rest)
  let ?g1 = "g\<lparr>readLine := readLine g @ [c]\<rparr>"
  have "handleMessageByte now junk c g = Inr ?g1"
    using Cons.prems by (auto simp: handleMessageByte_def newline_def)
  moreover have "feed (map (\<lambda>c. (now, junk, c)) (rest @ [newline])) ?g1 =
      handleLine now junk (readLine ?g1 @ rest) ?g1"
    using Cons.prems by (intro Cons.IH) simp_all
  ultimately show ?case
    by (simp add: handleLine_readLine)
qed

lemma feed_line:
  assumes "readLine g = []" and "length line < 4096" and "newline \<notin> set line"
  shows "feed (map (\<lambda>c. (now, junk, c)) (line @ [newline])) g = handleLine now junk line g"
  using feed_rest [of g line now junk] assms by simp

subsection \<open>A stream client that cannot be written to\<close>

text \<open>
  C2. The claim: every connected stream client that has no short write receives
  every accepted line, once. The code when \<open>line_depth\<close> is accepted while a stream
  client is connected (slot 5, descriptor 6, in the write set) and \<^verbatim>\<open>select\<close> reports
  no descriptor writable in the write phase that follows: the loop of line 497 is
  not entered, nothing is sent, the client is not closed, and the accumulator is
  emptied, so the line is not sent later either. The comment of line 513 says that
  a client that cannot be written to is closed, and so the loop does for a slot that
  it reaches: when \<^verbatim>\<open>select\<close> reports the descriptors 1 and 6, the snapshot client of
  slot 4, which is not writable, is closed. The same run shows what a writable
  stream client is sent: the bytes of the line, without the newline.
\<close>

theorem unready_stream_client_gets_nothing:
  "(case feed (map (\<lambda>c. (1000, (0, 0, 0), c)) (line_depth @ [newline])) store_battery of
      Inl f \<Rightarrow> Inl f
    | Inr g1 \<Rightarrow> writeAllClients env_none (server_clients\<lparr>glob := g1\<rparr>)) =
   Inr (server_clients
         \<lparr>glob := store_battery
            \<lparr> pgnIdx := (pgnIdx store_battery)(68876 \<mapsto>
                 \<lparr> p_prn = 128267, p_description = Some ''Water Depth'',
                   p_message = [\<lparr> m_src = 1, m_key2 = None, m_time = 1120,
                                  m_text = Some line_depth \<rparr>] \<rparr>),
               pgnList := [68117, 68876] \<rparr>\<rparr>, [])
   \<and> fd (stream server_clients 5) = 6 \<and> type (stream server_clients 5) = CLIENT_JSON_STREAM
   \<and> 6 \<in> writeSet server_clients
   \<and> (case feed (map (\<lambda>c. (1000, (0, 0, 0), c)) (line_depth @ [newline])) store_battery of
        Inl f \<Rightarrow> Inl f
      | Inr g1 \<Rightarrow> writeAllClients env_two (server_clients\<lparr>glob := g1\<rparr>)) =
     Inr (closeStream 4 (server_clients
           \<lparr>glob := store_battery
              \<lparr> pgnIdx := (pgnIdx store_battery)(68876 \<mapsto>
                   \<lparr> p_prn = 128267, p_description = Some ''Water Depth'',
                     p_message = [\<lparr> m_src = 1, m_key2 = None, m_time = 1120,
                                    m_text = Some line_depth \<rparr>] \<rparr>),
                 pgnList := [68117, 68876] \<rparr>\<rparr>),
          [Sent_message 1 1 line_depth, Sent_message 5 6 line_depth])"
proof -
  have "feed (map (\<lambda>c. (1000, (0, 0, 0), c)) (line_depth @ [newline])) store_battery =
      handleLine 1000 (0, 0, 0) line_depth store_battery"
    by (rule feed_line) (simp_all add: store_battery_def line_depth_def newline_def)
  then have f: "feed (map (\<lambda>c. (1000, (0, 0, 0), c)) (line_depth @ [newline])) store_battery =
      Inr (store_battery
           \<lparr> currentMessage := line_depth,
             pgnIdx := (pgnIdx store_battery)(68876 \<mapsto>
               \<lparr> p_prn = 128267, p_description = Some ''Water Depth'',
                 p_message = [\<lparr> m_src = 1, m_key2 = None, m_time = 1120,
                                m_text = Some line_depth \<rparr>] \<rparr>),
             pgnList := [68117, 68876] \<rparr>)"
    by (simp only: depth_after_battery)
  have ne: "line_depth \<noteq> []"
    by (simp add: line_depth_def)
  have a: "writeAllClients env_none (server_clients\<lparr>glob := store_battery
           \<lparr> currentMessage := line_depth,
             pgnIdx := (pgnIdx store_battery)(68876 \<mapsto>
               \<lparr> p_prn = 128267, p_description = Some ''Water Depth'',
                 p_message = [\<lparr> m_src = 1, m_key2 = None, m_time = 1120,
                                m_text = Some line_depth \<rparr>] \<rparr>),
             pgnList := [68117, 68876] \<rparr>\<rparr>) =
      Inr (server_clients
         \<lparr>glob := store_battery
            \<lparr> pgnIdx := (pgnIdx store_battery)(68876 \<mapsto>
                 \<lparr> p_prn = 128267, p_description = Some ''Water Depth'',
                   p_message = [\<lparr> m_src = 1, m_key2 = None, m_time = 1120,
                                  m_text = Some line_depth \<rparr>] \<rparr>),
               pgnList := [68117, 68876] \<rparr>\<rparr>, [])"
    by (simp add: write_defs env_none_def server_clients_def store_battery_def)
  have b: "writeAllClients env_two (server_clients\<lparr>glob := store_battery
           \<lparr> currentMessage := line_depth,
             pgnIdx := (pgnIdx store_battery)(68876 \<mapsto>
               \<lparr> p_prn = 128267, p_description = Some ''Water Depth'',
                 p_message = [\<lparr> m_src = 1, m_key2 = None, m_time = 1120,
                                m_text = Some line_depth \<rparr>] \<rparr>),
             pgnList := [68117, 68876] \<rparr>\<rparr>) =
      Inr (closeStream 4 (server_clients
           \<lparr>glob := store_battery
              \<lparr> pgnIdx := (pgnIdx store_battery)(68876 \<mapsto>
                   \<lparr> p_prn = 128267, p_description = Some ''Water Depth'',
                     p_message = [\<lparr> m_src = 1, m_key2 = None, m_time = 1120,
                                    m_text = Some line_depth \<rparr>] \<rparr>),
                 pgnList := [68117, 68876] \<rparr>\<rparr>),
          [Sent_message 1 1 line_depth, Sent_message 5 6 line_depth])"
    using ne
    by (simp add: writeAllClients_def write_loop.simps write_slot_def send_message_def
        closeStream_def env_two_def server_clients_def store_battery_def idle_slot_def Let_def)
       (auto simp: fun_eq_iff)
  have c: "fd (stream server_clients 5) = 6 \<and> type (stream server_clients 5) = CLIENT_JSON_STREAM
      \<and> 6 \<in> writeSet server_clients"
    by (simp add: server_clients_def)
  show ?thesis
    unfolding f sum.case a b using c by simp
qed

section \<open>The read handler\<close>

subsection \<open>C strings in a buffer\<close>

lemma cstr_append_NUL: "cstr (xs @ NUL # ys) = cstr xs"
  by (induction xs) (simp_all add: cstr_def)

lemma cstr_after_read:
  assumes "rest \<noteq> []"
  shows "cstr ((bytes @ rest)[length bytes := NUL]) = cstr bytes"
proof -
  from assms obtain x xs where "rest = x # xs" by (cases rest) auto
  then have "(bytes @ rest)[length bytes := NUL] = bytes @ NUL # xs"
    by (simp add: list_update_append)
  then show ?thesis by (simp add: cstr_append_NUL)
qed










subsection \<open>A loop that is not left\<close>




subsection \<open>A call that reads bytes\<close>





end
